theory Spec2Isabelle
  imports Complex_Main "HOL-Library.Sublist"
begin

section \<open>Smart Router: data model\<close>

text \<open>
  JavaScript numbers are modelled as \<^typ>\<open>real\<close>: the scores and thresholds of the router
  are decimal fractions that are only added, subtracted, compared and clamped. A field of
  a configuration object that is absent (\<^verbatim>\<open>undefined\<close>) is \<^term>\<open>None\<close>.
\<close>

datatype tier = Simple | Medium | Complex | Passthrough | Forced

datatype source = Heuristics | Ollama | ForcedSource | NoSource

datatype error = TypeError

text \<open>The \<^verbatim>\<open>config\<close> argument of the two classifiers (every field optional).\<close>

record config =
  simpleModel :: "string option"
  mediumModel :: "string option"
  complexModel :: "string option"
  simpleThreshold :: "real option"
  complexThreshold :: "real option"

text \<open>
  The result object of a classifier. \<^verbatim>\<open>getModelForComplexity\<close> sets \<^verbatim>\<open>model\<close>,
  \<^verbatim>\<open>tier\<close> and \<^verbatim>\<open>score\<close>; \<^verbatim>\<open>classify\<close> adds \<^verbatim>\<open>prompt\<close>; the proxy or the
  Ollama classifier adds \<^verbatim>\<open>source\<close>.
\<close>

record classification =
  model :: "string option"
  tier :: tier
  score :: real
  source :: "source option"
  prompt :: "string option"

section \<open>Tier mapping (classifier.js, ollama-classifier.js)\<close>

text \<open>
  \<^verbatim>\<open>x || d\<close> on a number: \<^verbatim>\<open>undefined\<close> and \<^verbatim>\<open>0\<close> are falsy and give the default.
\<close>

definition num_or :: "real option \<Rightarrow> real \<Rightarrow> real" where
  "num_or x d = (case x of None \<Rightarrow> d | Some v \<Rightarrow> if v = 0 then d else v)"

text \<open>\<^verbatim>\<open>x || d\<close> on a string: \<^verbatim>\<open>undefined\<close> and the empty string are falsy.\<close>

definition str_or :: "string option \<Rightarrow> string \<Rightarrow> string" where
  "str_or x d = (case x of None \<Rightarrow> d | Some v \<Rightarrow> if v = [] then d else v)"

text \<open>The local objects \<^verbatim>\<open>thresholds\<close> and \<^verbatim>\<open>models\<close> of both tier mappers.\<close>

definition thresholds_simple :: "config \<Rightarrow> real" where
  "thresholds_simple cfg = num_or (simpleThreshold cfg) (35 / 100)"

definition thresholds_complex :: "config \<Rightarrow> real" where
  "thresholds_complex cfg = num_or (complexThreshold cfg) (65 / 100)"

definition models_simple :: "config \<Rightarrow> string" where
  "models_simple cfg = str_or (simpleModel cfg) ''claude-3-5-haiku-20241022''"

definition models_medium :: "config \<Rightarrow> string" where
  "models_medium cfg = str_or (mediumModel cfg) ''claude-sonnet-4-20250514''"

definition models_complex :: "config \<Rightarrow> string" where
  "models_complex cfg = str_or (complexModel cfg) ''claude-opus-4-20250514''"

definition recommendation :: "string \<Rightarrow> tier \<Rightarrow> real \<Rightarrow> classification" where
  "recommendation m t s =
     \<lparr>model = Some m, tier = t, score = s, source = None, prompt = None\<rparr>"

text \<open>classifier.js, \<^verbatim>\<open>getModelForComplexity(score, config)\<close>.\<close>

definition getModelForComplexity :: "real \<Rightarrow> config \<Rightarrow> classification" where
  "getModelForComplexity s cfg =
     (if s < thresholds_simple cfg then recommendation (models_simple cfg) Simple s
      else if s < thresholds_complex cfg then recommendation (models_medium cfg) Medium s
      else recommendation (models_complex cfg) Complex s)"

text \<open>ollama-classifier.js, \<^verbatim>\<open>getModelForScore(score, config)\<close>.\<close>

definition getModelForScore :: "real \<Rightarrow> config \<Rightarrow> classification" where
  "getModelForScore s cfg =
     (if s < num_or (simpleThreshold cfg) (35 / 100)
      then \<lparr>model = Some (str_or (simpleModel cfg) ''claude-3-5-haiku-20241022''),
            tier = Simple, score = s, source = None, prompt = None\<rparr>
      else if s < num_or (complexThreshold cfg) (65 / 100)
      then \<lparr>model = Some (str_or (mediumModel cfg) ''claude-sonnet-4-20250514''),
            tier = Medium, score = s, source = None, prompt = None\<rparr>
      else \<lparr>model = Some (str_or (complexModel cfg) ''claude-opus-4-20250514''),
            tier = Complex, score = s, source = None, prompt = None\<rparr>)"

text \<open>The configuration the proxy builds when no environment variable is set.\<close>

definition defaultConfig :: config where
  "defaultConfig =
     \<lparr>simpleModel = Some ''claude-3-5-haiku-20241022'',
      mediumModel = Some ''claude-sonnet-4-20250514'',
      complexModel = Some ''claude-opus-4-20250514'',
      simpleThreshold = Some (35 / 100),
      complexThreshold = Some (65 / 100)\<rparr>"

text \<open>The empty configuration object \<^verbatim>\<open>{}\<close>, the default of the parameter.\<close>

definition emptyConfig :: config where
  "emptyConfig =
     \<lparr>simpleModel = None, mediumModel = None, complexModel = None,
      simpleThreshold = None, complexThreshold = None\<rparr>"

section \<open>Regular expressions of the pattern library\<close>

text \<open>
  Strings are lists of 8-bit characters (code units below 256). The patterns of
  classifier.js use literal characters, \<^verbatim>\<open>.\<close>, \<^verbatim>\<open>.*\<close>, \<^verbatim>\<open>.?\<close>, a leading
  \<^verbatim>\<open>^\<close> and the flag \<^verbatim>\<open>i\<close>. \<^verbatim>\<open>RegExp.prototype.test\<close> only asks whether some
  match exists, so the matcher decides existence (the greedy alternative is tried first).
\<close>

datatype atom = Ch char | AnyOne | AnyStar | AnyOpt

text \<open>Line terminators: what \<^verbatim>\<open>.\<close> does not match and what ends a line for \<^verbatim>\<open>^\<close> under flag \<^verbatim>\<open>m\<close>.\<close>

definition isLineTerminator :: "char \<Rightarrow> bool" where
  "isLineTerminator c = (c = CHR 0x0A \<or> c = CHR 0x0D)"

text \<open>The class \<^verbatim>\<open>\s\<close>: tab, line feed, vertical tab, form feed, carriage return, space, no-break space.\<close>

definition isWhiteSpace :: "char \<Rightarrow> bool" where
  "isWhiteSpace c = (c \<in> set [CHR 0x09, CHR 0x0A, CHR 0x0B, CHR 0x0C, CHR 0x0D, CHR 0x20, CHR 0xA0])"

text \<open>The class \<^verbatim>\<open>\d\<close>.\<close>

definition isDigit :: "char \<Rightarrow> bool" where
  "isDigit c = (c \<in> set ''0123456789'')"

text \<open>
  Canonicalisation under flag \<^verbatim>\<open>i\<close>: a letter a-z is compared as its upper-case
  form. A character above 127 never canonicalises to an ASCII character, and every
  pattern character is ASCII, so the images of the other characters do not matter.
\<close>

definition canonicalize :: "char \<Rightarrow> char" where
  "canonicalize c =
     (case map_of (zip ''abcdefghijklmnopqrstuvwxyz'' ''ABCDEFGHIJKLMNOPQRSTUVWXYZ'') c of
        None \<Rightarrow> c
      | Some u \<Rightarrow> u)"

fun parseAtoms :: "string \<Rightarrow> atom list" where
  "parseAtoms [] = []"
| "parseAtoms [c] = (if c = CHR ''.'' then [AnyOne] else [Ch c])"
| "parseAtoms (c # d # r) =
     (if c = CHR ''.'' \<and> d = CHR ''*'' then AnyStar # parseAtoms r
      else if c = CHR ''.'' \<and> d = CHR ''?'' then AnyOpt # parseAtoms r
      else if c = CHR ''.'' then AnyOne # parseAtoms (d # r)
      else Ch c # parseAtoms (d # r))"

text \<open>A pattern: whether it starts with \<^verbatim>\<open>^\<close>, and its atoms.\<close>

type_synonym regex = "bool \<times> atom list"

definition rx :: "string \<Rightarrow> regex" where
  "rx src = (case src of [] \<Rightarrow> (False, [])
             | c # r \<Rightarrow> if c = CHR ''^'' then (True, parseAtoms r) else (False, parseAtoms src))"

text \<open>Does the atom list match a prefix of the text?\<close>

fun matchHere :: "atom list \<Rightarrow> string \<Rightarrow> bool" where
  "matchHere [] s = True"
| "matchHere (Ch c # r) [] = False"
| "matchHere (Ch c # r) (x # xs) =
     (if canonicalize x = canonicalize c then matchHere r xs else False)"
| "matchHere (AnyOne # r) [] = False"
| "matchHere (AnyOne # r) (x # xs) = (if isLineTerminator x then False else matchHere r xs)"
| "matchHere (AnyOpt # r) [] = matchHere r []"
| "matchHere (AnyOpt # r) (x # xs) =
     (if isLineTerminator x then matchHere r (x # xs)
      else if matchHere r xs then True else matchHere r (x # xs))"
| "matchHere (AnyStar # r) [] = matchHere r []"
| "matchHere (AnyStar # r) (x # xs) =
     (if isLineTerminator x then matchHere r (x # xs)
      else if matchHere (AnyStar # r) xs then True else matchHere r (x # xs))"

text \<open>Is there a match starting at some position of the text?\<close>

fun matchAnywhere :: "atom list \<Rightarrow> string \<Rightarrow> bool" where
  "matchAnywhere p [] = matchHere p []"
| "matchAnywhere p (x # xs) = (if matchHere p (x # xs) then True else matchAnywhere p xs)"

text \<open>\<^verbatim>\<open>pattern.test(text)\<close>.\<close>

definition test :: "regex \<Rightarrow> string \<Rightarrow> bool" where
  "test p text = (if fst p then matchHere (snd p) text else matchAnywhere (snd p) text)"

section \<open>Pattern library (classifier.js)\<close>

definition COMPLEX_PATTERNS :: "regex list" where
  "COMPLEX_PATTERNS = map rx
    [''architect'', ''design.*system'', ''implement.*from scratch'', ''debug.*complex'',
     ''debug.*race.?condition'', ''race.?condition'', ''payment.*processing'',
     ''only.*happens'', ''optimize.*performance'', ''refactor.*entire'',
     ''security.*audit'', ''audit'', ''multi.?step'', ''step.?by.?step.*plan'',
     ''comprehensive'', ''in.?depth.*analysis'', ''compare.*contrast.*multiple'',
     ''trade.?offs'', ''edge.?cases'', ''error.?handling'', ''scalab'', ''distributed'',
     ''concurren'', ''async.*complex'', ''state.?machine'', ''algorithm'',
     ''data.?structure'', ''migration.*strategy'', ''breaking.*change'',
     ''backward.*compat'', ''vulnerabilit'', ''rollback'', ''high.?load'',
     ''circuit.?breaker'', ''microservice'']"

definition SIMPLE_PATTERNS :: "regex list" where
  "SIMPLE_PATTERNS = map rx
    [''^what is'', [CHR ''^'', CHR ''w'', CHR ''h'', CHR ''a'', CHR ''t'', CHR 0x27, CHR ''s''],
     ''^how do i'', ''^explain.*briefly'', ''^define'', ''^list'', ''^summarize'',
     ''^translate'', ''fix.*typo'', ''simple.*question'', ''quick.*question'',
     ''^yes or no'', ''^true or false'', ''format.*this'', ''convert.*to'', ''^rename'',
     ''add.*comment'', ''remove.*unused'', ''^what does.*mean'', ''^can you.*explain'']"

definition MEDIUM_PATTERNS :: "regex list" where
  "MEDIUM_PATTERNS = map rx
    [''write.*function'', ''create.*component'', ''implement.*feature'', ''add.*endpoint'',
     ''fix.*bug'', ''update.*to'', ''modify'', ''change.*behavior'', ''test.*for'',
     ''write.*test'']"

text \<open>The three counting loops: how many patterns of a list match the text.\<close>

definition countMatches :: "regex list \<Rightarrow> string \<Rightarrow> nat" where
  "countMatches ps text = length (filter (\<lambda>p. test p text) ps)"

section \<open>Heuristic scorer (classifier.js)\<close>

text \<open>
  \<^verbatim>\<open>text.split(/\s+/)\<close>: the pieces between maximal runs of white space. The first
  argument is the piece being read, the second says whether the last character read
  belonged to a separator.
\<close>

fun splitWhiteSpace :: "string \<Rightarrow> bool \<Rightarrow> string \<Rightarrow> string list" where
  "splitWhiteSpace cur inSep [] = [cur]"
| "splitWhiteSpace cur inSep (c # cs) =
     (if isWhiteSpace c
      then (if inSep then splitWhiteSpace cur True cs else cur # splitWhiteSpace [] True cs)
      else splitWhiteSpace (cur @ [c]) False cs)"

definition wordCount :: "string \<Rightarrow> nat" where
  "wordCount text = length (splitWhiteSpace [] False text)"

text \<open>\<^verbatim>\<open>block.split('\n')\<close>.\<close>

fun splitChar :: "char \<Rightarrow> string \<Rightarrow> string list" where
  "splitChar d [] = [[]]"
| "splitChar d (c # cs) =
     (if c = d then [] # splitChar d cs
      else (case splitChar d cs of [] \<Rightarrow> [[c]] | p # ps \<Rightarrow> (c # p) # ps))"

definition fence :: string where
  "fence = [CHR 0x60, CHR 0x60, CHR 0x60]"

text \<open>
  The lazy body and the closing fence of the code-block pattern: the shortest
  prefix of the text that ends with a fence, and what follows it.
\<close>

fun untilFence :: "string \<Rightarrow> (string \<times> string) option" where
  "untilFence [] = None"
| "untilFence (c # cs) =
     (if take 3 (c # cs) = fence then Some (fence, drop 3 (c # cs))
      else (case untilFence cs of None \<Rightarrow> None | Some (b, r) \<Rightarrow> Some (c # b, r)))"

text \<open>
  \<^verbatim>\<open>text.match(/```[\s\S]*?```/g) || []\<close>: the matches from left to right, each
  search resuming where the previous match ended.
\<close>

function (sequential) matchCodeBlocks :: "string \<Rightarrow> string list" where
  "matchCodeBlocks [] = []"
| "matchCodeBlocks (c # cs) =
     (if take 3 (c # cs) = fence
      then (case untilFence (drop 3 (c # cs)) of
              None \<Rightarrow> matchCodeBlocks cs
            | Some (b, r) \<Rightarrow> (fence @ b) # matchCodeBlocks r)
      else matchCodeBlocks cs)"
  by pat_completeness auto
termination
proof (relation "measure length")
  show "wf (measure length)" by simp
next
  fix c :: char and cs :: string
  show "(cs, c # cs) \<in> measure length" by simp
next
  fix c :: char and cs x2 b r :: string and p :: "string \<times> string"
  assume "untilFence (drop 3 (c # cs)) = Some p" and "(b, r) = p"
  then have u: "untilFence (drop 3 (c # cs)) = Some (b, r)" by simp
  have "untilFence s = Some (b', r') \<Longrightarrow> length r' \<le> length s" for s b' r'
    by (induction s arbitrary: b') (auto split: if_splits option.splits)
  from this [OF u] have "length r \<le> length (drop 3 (c # cs))" .
  then show "(r, c # cs) \<in> measure length" by simp
next
  fix c :: char and cs :: string
  show "(cs, c # cs) \<in> measure length" by simp
qed

text \<open>\<^verbatim>\<open>analyzeCodeContent(text)\<close>: the pair (codeBlocks, codeLines).\<close>

definition analyzeCodeContent :: "string \<Rightarrow> nat \<times> nat" where
  "analyzeCodeContent text =
     (let codeBlocks = matchCodeBlocks text;
          totalCodeLines = foldl (\<lambda>acc block. acc + length (splitChar CHR 0x0A block)) 0 codeBlocks
      in (length codeBlocks, totalCodeLines))"

text \<open>\<^verbatim>\<open>(text.match(/\?/g) || []).length\<close>.\<close>

definition questionMarks :: "string \<Rightarrow> nat" where
  "questionMarks text = length (filter (\<lambda>c. c = CHR ''?'') text)"

text \<open>Does \<^verbatim>\<open>\d+\.\<close> match a prefix of the text?\<close>

definition numberedPrefix :: "string \<Rightarrow> bool" where
  "numberedPrefix s =
     (takeWhile isDigit s \<noteq> [] \<and>
      (case dropWhile isDigit s of [] \<Rightarrow> False | c # _ \<Rightarrow> c = CHR ''.''))"

text \<open>
  \<^verbatim>\<open>(text.match(/^\d+\./gm) || []).length\<close>: the line starts (the start of the text and
  the positions after a line terminator) where the pattern matches. The flag says
  whether the current position is a line start.
\<close>

fun numberedItemsFrom :: "bool \<Rightarrow> string \<Rightarrow> nat" where
  "numberedItemsFrom atStart [] = 0"
| "numberedItemsFrom atStart (c # cs) =
     (if atStart \<and> numberedPrefix (c # cs) then 1 else 0)
       + numberedItemsFrom (isLineTerminator c) cs"

definition numberedItems :: "string \<Rightarrow> nat" where
  "numberedItems text = numberedItemsFrom True text"

text \<open>
  The argument of the classifier: a string, or another value, given by what
  \<^verbatim>\<open>JSON.stringify\<close> returns for it (\<^term>\<open>None\<close> when that is \<^verbatim>\<open>undefined\<close>, as for
  the value \<^verbatim>\<open>undefined\<close> itself or a function).
\<close>

datatype js_prompt = PString string | PValue "string option"

text \<open>Line 101 and the call of \<^verbatim>\<open>text.split\<close>, which raises when text is \<^verbatim>\<open>undefined\<close>.\<close>

definition promptText :: "js_prompt \<Rightarrow> error + string" where
  "promptText p =
     (case p of PString s \<Rightarrow> Inr s
      | PValue None \<Rightarrow> Inl TypeError
      | PValue (Some s) \<Rightarrow> Inr s)"

text \<open>Length-based scoring, lines 106 to 109.\<close>

definition lengthScoring :: "nat \<Rightarrow> real \<Rightarrow> real" where
  "lengthScoring wc s =
     (if wc < 20 then s - 15 / 100
      else if wc < 50 then s - 5 / 100
      else if wc > 200 then s + 1 / 10
      else if wc > 500 then s + 2 / 10
      else s)"

text \<open>Code content scoring, lines 112 to 114.\<close>

definition codeScoring :: "nat \<Rightarrow> nat \<Rightarrow> real \<Rightarrow> real" where
  "codeScoring codeBlocks codeLines s =
     (if codeLines > 100 then s + 15 / 100
      else if codeLines > 50 then s + 1 / 10
      else if codeBlocks > 0 \<and> codeLines < 20 then s - 5 / 100
      else s)"

text \<open>Lines 99 to 150 of \<^verbatim>\<open>calculateComplexity\<close>, once the text is known.\<close>

definition complexityOfText :: "string \<Rightarrow> real" where
  "complexityOfText text =
     (let wc = wordCount text;
          (codeBlocks, codeLines) = analyzeCodeContent text;
          s1 = lengthScoring wc (5 / 10);
          s2 = codeScoring codeBlocks codeLines s1;
          complexMatches = countMatches COMPLEX_PATTERNS text;
          simpleMatches = countMatches SIMPLE_PATTERNS text;
          mediumMatches = countMatches MEDIUM_PATTERNS text;
          s3 = s2 + real complexMatches * (8 / 100);
          s4 = s3 - real simpleMatches * (1 / 10);
          s5 = s4 + real mediumMatches * (3 / 100);
          qm = questionMarks text;
          s6 = (if qm > 0 \<and> wc < 30 then s5 - 1 / 10 else s5);
          s7 = (if qm > 3 then s6 + 1 / 10 else s6);
          s8 = (if numberedItems text > 3 then s7 + 15 / 100 else s7)
      in max 0 (min 1 s8))"

text \<open>classifier.js, \<^verbatim>\<open>calculateComplexity(prompt)\<close>.\<close>

definition calculateComplexity :: "js_prompt \<Rightarrow> error + real" where
  "calculateComplexity p =
     (case promptText p of Inl e \<Rightarrow> Inl e | Inr text \<Rightarrow> Inr (complexityOfText text))"

text \<open>The field \<^verbatim>\<open>prompt\<close> of a result: the first 100 characters and an ellipsis.\<close>

definition promptPreview :: "js_prompt \<Rightarrow> string" where
  "promptPreview p = (case p of PString s \<Rightarrow> take 100 s @ ''...'' | PValue _ \<Rightarrow> ''[object]'')"

text \<open>classifier.js, \<^verbatim>\<open>classify(prompt, config)\<close>.\<close>

definition classify :: "js_prompt \<Rightarrow> config \<Rightarrow> error + classification" where
  "classify p cfg =
     (case calculateComplexity p of
        Inl e \<Rightarrow> Inl e
      | Inr s \<Rightarrow> Inr ((getModelForComplexity s cfg)\<lparr>prompt := Some (promptPreview p)\<rparr>))"

section \<open>JSON values\<close>

text \<open>
  A parsed JSON value. An object is the list of its properties, the first binding of a
  key being the one that is read. A number carries, next to its value, the text that
  the language renders it as (the rendering is a built-in of the language and is not
  modelled). A JavaScript value that may also be \<^verbatim>\<open>undefined\<close> is an optional JSON
  value.
\<close>

datatype json =
    JNull
  | JBool bool
  | JNum real string
  | JStr string
  | JArr "json list"
  | JObj "(string \<times> json) list"

text \<open>
  Reading the property \<^verbatim>\<open>v.k\<close>, for the keys the router reads (none of them is a
  built-in property of a string, a number, a boolean or an array): \<^verbatim>\<open>null\<close> raises, an
  object gives its property, anything else gives \<^verbatim>\<open>undefined\<close>.
\<close>

definition getProp :: "json \<Rightarrow> string \<Rightarrow> error + json option" where
  "getProp v k =
     (case v of JNull \<Rightarrow> Inl TypeError
      | JObj kvs \<Rightarrow> Inr (map_of kvs k)
      | _ \<Rightarrow> Inr None)"

text \<open>Truthiness, as \<^verbatim>\<open>!\<close> reads it.\<close>

definition truthy :: "json option \<Rightarrow> bool" where
  "truthy v =
     (case v of None \<Rightarrow> False
      | Some JNull \<Rightarrow> False
      | Some (JBool b) \<Rightarrow> b
      | Some (JNum n _) \<Rightarrow> n \<noteq> 0
      | Some (JStr s) \<Rightarrow> s \<noteq> []
      | Some (JArr _) \<Rightarrow> True
      | Some (JObj _) \<Rightarrow> True)"

definition isArray :: "json option \<Rightarrow> bool" where
  "isArray v = (case v of Some (JArr _) \<Rightarrow> True | _ \<Rightarrow> False)"

text \<open>\<^verbatim>\<open>Array.prototype.filter\<close> with a callback that may raise.\<close>

fun filterE :: "('a \<Rightarrow> error + bool) \<Rightarrow> 'a list \<Rightarrow> error + 'a list" where
  "filterE f [] = Inr []"
| "filterE f (x # xs) =
     (case f x of
        Inl e \<Rightarrow> Inl e
      | Inr b \<Rightarrow> (case filterE f xs of
                   Inl e \<Rightarrow> Inl e
                 | Inr ys \<Rightarrow> Inr (if b then x # ys else ys)))"

text \<open>\<^verbatim>\<open>Array.prototype.map\<close> with a callback that may raise.\<close>

fun mapE :: "('a \<Rightarrow> error + 'b) \<Rightarrow> 'a list \<Rightarrow> error + 'b list" where
  "mapE f [] = Inr []"
| "mapE f (x # xs) =
     (case f x of
        Inl e \<Rightarrow> Inl e
      | Inr y \<Rightarrow> (case mapE f xs of Inl e \<Rightarrow> Inl e | Inr ys \<Rightarrow> Inr (y # ys)))"

text \<open>Concatenation with a separator.\<close>

fun joinWith :: "string \<Rightarrow> string list \<Rightarrow> string" where
  "joinWith sep [] = []"
| "joinWith sep [x] = x"
| "joinWith sep (x # y # r) = x @ sep @ joinWith sep (y # r)"

text \<open>The results of a list of computations, or the first error.\<close>

fun sequenceE :: "(error + 'a) list \<Rightarrow> error + 'a list" where
  "sequenceE [] = Inr []"
| "sequenceE (r # rs) =
     (case r of
        Inl e \<Rightarrow> Inl e
      | Inr y \<Rightarrow> (case sequenceE rs of Inl e \<Rightarrow> Inl e | Inr ys \<Rightarrow> Inr (y # ys)))"

text \<open>
  The conversion of a JSON value to a string that \<^verbatim>\<open>Array.prototype.join\<close> applies to
  an element. An array is joined with commas, \<^verbatim>\<open>null\<close> inside it giving the empty
  string. An object is converted through its method \<^verbatim>\<open>toString\<close>: the inherited one
  gives \<^verbatim>\<open>[object Object]\<close>; an own property \<^verbatim>\<open>toString\<close> of a parsed object is never
  a function, \<^verbatim>\<open>valueOf\<close> then gives no primitive value either, and the conversion
  raises a TypeError.
\<close>

fun toString :: "json \<Rightarrow> error + string" where
  "toString JNull = Inr ''null''"
| "toString (JBool b) = Inr (if b then ''true'' else ''false'')"
| "toString (JNum n txt) = Inr txt"
| "toString (JStr s) = Inr s"
| "toString (JArr xs) =
     (case sequenceE (map (\<lambda>x. if x = JNull then Inr [] else toString x) xs) of
        Inl e \<Rightarrow> Inl e
      | Inr ss \<Rightarrow> Inr (joinWith '','' ss))"
| "toString (JObj kvs) =
     (if map_of kvs ''toString'' = None then Inr ''[object Object]'' else Inl TypeError)"

text \<open>An element of \<^verbatim>\<open>join\<close>: \<^verbatim>\<open>undefined\<close> and \<^verbatim>\<open>null\<close> give the empty string.\<close>

definition joinElement :: "json option \<Rightarrow> error + string" where
  "joinElement v =
     (case v of None \<Rightarrow> Inr [] | Some x \<Rightarrow> if x = JNull then Inr [] else toString x)"

section \<open>Prompt extractor (proxy)\<close>

text \<open>The callback \<^verbatim>\<open>m => m.role === 'user'\<close>.\<close>

definition isUserMessage :: "json \<Rightarrow> error + bool" where
  "isUserMessage m =
     (case getProp m ''role'' of Inl e \<Rightarrow> Inl e | Inr r \<Rightarrow> Inr (r = Some (JStr ''user'')))"

text \<open>The callback \<^verbatim>\<open>c => c.type === 'text'\<close>.\<close>

definition isTextPart :: "json \<Rightarrow> error + bool" where
  "isTextPart c =
     (case getProp c ''type'' of Inl e \<Rightarrow> Inl e | Inr t \<Rightarrow> Inr (t = Some (JStr ''text'')))"

text \<open>\<^verbatim>\<open>extractPrompt(body)\<close>.\<close>

definition extractPrompt :: "json \<Rightarrow> error + string" where
  "extractPrompt body =
     (case getProp body ''messages'' of
        Inl e \<Rightarrow> Inl e
      | Inr messages \<Rightarrow>
          if \<not> truthy messages \<or> \<not> isArray messages then Inr []
          else (case messages of
                  Some (JArr ms) \<Rightarrow>
                    (case filterE isUserMessage ms of
                       Inl e \<Rightarrow> Inl e
                     | Inr userMessages \<Rightarrow>
                         if length userMessages = 0 then Inr []
                         else (case getProp (last userMessages) ''content'' of
                                 Inl e \<Rightarrow> Inl e
                               | Inr (Some (JStr s)) \<Rightarrow> Inr s
                               | Inr (Some (JArr parts)) \<Rightarrow>
                                   (case filterE isTextPart parts of
                                      Inl e \<Rightarrow> Inl e
                                    | Inr textParts \<Rightarrow>
                                        (case mapE (\<lambda>c. getProp c ''text'') textParts of
                                           Inl e \<Rightarrow> Inl e
                                         | Inr texts \<Rightarrow>
                                             (case mapE joinElement texts of
                                                Inl e \<Rightarrow> Inl e
                                              | Inr ss \<Rightarrow> Inr (joinWith [CHR 0x0A] ss))))
                               | Inr _ \<Rightarrow> Inr []))
                | _ \<Rightarrow> Inr []))"

section \<open>External scorer (ollama-classifier.js)\<close>

text \<open>
  What \<^verbatim>\<open>axios.post\<close> gives back: the promise is rejected (time-out, transport error,
  error status), or it resolves with a response whose \<^verbatim>\<open>data\<close> is a JSON value (a
  body that is not JSON arrives as a string). The request text built from the prompt only
  influences which of these the server produces; the model takes the outcome as given.
\<close>

datatype http_result = HttpFailure | HttpResponse json

text \<open>\<^verbatim>\<open>String.prototype.trim\<close>.\<close>

definition trim :: "string \<Rightarrow> string" where
  "trim s = rev (dropWhile isWhiteSpace (rev (dropWhile isWhiteSpace s)))"

text \<open>\<^verbatim>\<open>text.match(/\d+/)?.[0]\<close>: the first maximal run of digits, empty when there is no digit.\<close>

definition firstDigits :: "string \<Rightarrow> string" where
  "firstDigits text = takeWhile isDigit (dropWhile (\<lambda>c. \<not> isDigit c) text)"

definition digitValue :: "char \<Rightarrow> nat" where
  "digitValue c = of_char c - 48"

text \<open>\<^verbatim>\<open>parseInt(ds, 10)\<close> on a string of digits.\<close>

definition parseInt :: "string \<Rightarrow> nat" where
  "parseInt ds = foldl (\<lambda>acc c. 10 * acc + digitValue c) 0 ds"

text \<open>Lines 47 to 51: the score read from the text of the response.\<close>

definition scoreOfResponse :: "string \<Rightarrow> real" where
  "scoreOfResponse r =
     (let text = trim r;
          m = firstDigits text;
          score = parseInt (if m = [] then ''5'' else m)
      in max 0 (min 1 (real score / 10)))"

text \<open>
  \<^verbatim>\<open>classifyWithOllama(prompt)\<close>. \<^term>\<open>None\<close> is the result \<^verbatim>\<open>null\<close>. The call of
  \<^verbatim>\<open>prompt.substring\<close> stands before the \<^verbatim>\<open>try\<close> block and raises for a prompt
  that is not a string; everything raised inside the block is caught.
\<close>

definition classifyWithOllama :: "js_prompt \<Rightarrow> http_result \<Rightarrow> error + real option" where
  "classifyWithOllama p reply =
     (case p of
        PValue _ \<Rightarrow> Inl TypeError
      | PString _ \<Rightarrow>
          Inr (case reply of
                 HttpFailure \<Rightarrow> None
               | HttpResponse data \<Rightarrow>
                   (case getProp data ''response'' of
                      Inl e \<Rightarrow> None
                    | Inr (Some (JStr r)) \<Rightarrow> Some (scoreOfResponse r)
                    | Inr _ \<Rightarrow> None)))"

text \<open>ollama-classifier.js, \<^verbatim>\<open>classify(prompt, config)\<close>.\<close>

definition classifyOllama ::
  "js_prompt \<Rightarrow> config \<Rightarrow> http_result \<Rightarrow> error + classification option" where
  "classifyOllama p cfg reply =
     (case classifyWithOllama p reply of
        Inl e \<Rightarrow> Inl e
      | Inr None \<Rightarrow> Inr None
      | Inr (Some s) \<Rightarrow>
          Inr (Some ((getModelForScore s cfg)
                 \<lparr>source := Some Ollama, prompt := Some (promptPreview p)\<rparr>)))"

section \<open>Proxy: classification step of the handler of /v1/messages\<close>

text \<open>The fields of \<^verbatim>\<open>CONFIG\<close> that the routing decision reads.\<close>

record server_config = config +
  forceModel :: "string option"
  disabled :: bool

text \<open>
  \<^verbatim>\<open>stats\<close>. The counters are natural numbers; \<^verbatim>\<open>routed\<close> is indexed by the tier.
\<close>

record stats =
  total :: nat
  routed :: "tier \<Rightarrow> nat"
  saved :: nat

text \<open>\<^verbatim>\<open>s.includes(sub)\<close> on strings: \<open>sub\<close> occurs in \<open>s\<close> as a contiguous substring.\<close>

fun includesStr :: "string \<Rightarrow> string \<Rightarrow> bool" where
  "includesStr [] sub = (sub = [])"
| "includesStr (c # cs) sub = (if take (length sub) (c # cs) = sub then True else includesStr cs sub)"

text \<open>The same configuration under the name the proxy gives the heuristic classifier.\<close>

definition classifyHeuristics :: "js_prompt \<Rightarrow> config \<Rightarrow> error + classification" where
  "classifyHeuristics = classify"

text \<open>Truthiness of a string that may be \<^verbatim>\<open>null\<close>.\<close>

definition truthyStr :: "string option \<Rightarrow> bool" where
  "truthyStr v = (case v of None \<Rightarrow> False | Some s \<Rightarrow> s \<noteq> [])"

text \<open>The object \<^verbatim>\<open>classifyConfig\<close> the handler builds from \<^verbatim>\<open>CONFIG\<close>.\<close>

definition classifyConfig :: "server_config \<Rightarrow> config" where
  "classifyConfig CONFIG =
     \<lparr>simpleModel = simpleModel CONFIG, mediumModel = mediumModel CONFIG,
      complexModel = complexModel CONFIG,
      simpleThreshold = simpleThreshold CONFIG,
      complexThreshold = complexThreshold CONFIG\<rparr>"

text \<open>
  The test \<^verbatim>\<open>!classification || classification.source !== 'ollama'\<close>, where
  \<^term>\<open>None\<close> is \<^verbatim>\<open>null\<close>.
\<close>

definition needsFallback :: "classification option \<Rightarrow> bool" where
  "needsFallback c = (case c of None \<Rightarrow> True | Some r \<Rightarrow> source r \<noteq> Some Ollama)"

text \<open>
  Lines 248 to 254: \<^verbatim>\<open>targetModel = classification.model\<close>, the counter of the tier,
  and the counter \<^verbatim>\<open>saved\<close>. Calling \<^verbatim>\<open>includes\<close> on an absent target model would
  raise. \<^verbatim>\<open>originalModel\<close> is a string or absent, and \<^verbatim>\<open>?.\<close> gives a falsy value
  when it is absent.
\<close>

definition recordRouting ::
  "string option \<Rightarrow> stats \<Rightarrow> classification
     \<Rightarrow> error + (stats \<times> string option \<times> classification)" where
  "recordRouting originalModel st c =
     (case model c of
        None \<Rightarrow> Inl TypeError
      | Some targetModel \<Rightarrow>
          (let st2 = st\<lparr>routed := (routed st)(tier c := routed st (tier c) + 1)\<rparr>;
               st3 = (if (case originalModel of None \<Rightarrow> False
                          | Some m \<Rightarrow> includesStr m ''opus'')
                         \<and> \<not> includesStr targetModel ''opus''
                      then st2\<lparr>saved := saved st2 + 1\<rparr> else st2)
           in Inr (st3, Some targetModel, c)))"

text \<open>
  Lines 219 to 258 of the handler, from \<^verbatim>\<open>stats.total++\<close> to the end of the routing
  decision. The arguments are \<^verbatim>\<open>CONFIG\<close>, \<^verbatim>\<open>ollamaAvailable\<close>, the outcome of the call of
  the Ollama server (read only when the call is made), \<^verbatim>\<open>originalModel\<close>, the extracted
  prompt and \<^verbatim>\<open>stats\<close>. The result is the new \<^verbatim>\<open>stats\<close>, \<^verbatim>\<open>targetModel\<close> and
  \<^verbatim>\<open>classification\<close>. Reading \<^verbatim>\<open>classification.model\<close> of \<^verbatim>\<open>null\<close> would raise.
\<close>

definition routeRequest ::
  "server_config \<Rightarrow> bool \<Rightarrow> http_result \<Rightarrow> string option \<Rightarrow> string \<Rightarrow> stats
     \<Rightarrow> error + (stats \<times> string option \<times> classification)" where
  "routeRequest CONFIG ollamaAvailable reply originalModel p st =
     (let st1 = st\<lparr>total := total st + 1\<rparr>;
          initial = \<lparr>model = None, tier = Passthrough, score = 0,
                     source = Some NoSource, prompt = None\<rparr>
      in if \<not> disabled CONFIG \<and> \<not> truthyStr (forceModel CONFIG) then
           (let cfg = classifyConfig CONFIG
            in case (if ollamaAvailable then classifyOllama (PString p) cfg reply
                     else Inr (Some initial)) of
                 Inl e \<Rightarrow> Inl e
               | Inr c1 \<Rightarrow>
                   (case (if needsFallback c1
                          then (case classifyHeuristics (PString p) cfg of
                                  Inl e \<Rightarrow> Inl e
                                | Inr h \<Rightarrow> Inr (Some (h\<lparr>source := Some Heuristics\<rparr>)))
                          else Inr c1) of
                      Inl e \<Rightarrow> Inl e
                    | Inr None \<Rightarrow> Inl TypeError
                    | Inr (Some c) \<Rightarrow> recordRouting originalModel st1 c))
         else if truthyStr (forceModel CONFIG) then
           Inr (st1, forceModel CONFIG,
                \<lparr>model = None, tier = Forced, score = 0,
                 source = Some ForcedSource, prompt = None\<rparr>)
         else Inr (st1, originalModel, initial))"

text \<open>What a run of the routing step leaves in \<^verbatim>\<open>stats.saved\<close> and in \<^verbatim>\<open>targetModel\<close>.\<close>

definition resultSaved :: "error + (stats \<times> string option \<times> classification) \<Rightarrow> nat option" where
  "resultSaved r = (case r of Inl e \<Rightarrow> None | Inr (st, tm, c) \<Rightarrow> Some (saved st))"

definition resultTarget :: "error + (stats \<times> string option \<times> classification) \<Rightarrow> string option" where
  "resultTarget r = (case r of Inl e \<Rightarrow> None | Inr (st, tm, c) \<Rightarrow> tm)"

section \<open>Specification-side definitions and example inputs\<close>

text \<open>The property \<open>k\<close> of an object; absent for every other value.\<close>

definition field :: "json \<Rightarrow> string \<Rightarrow> json option" where
  "field v k = (case v of JObj kvs \<Rightarrow> map_of kvs k | _ \<Rightarrow> None)"

definition hasRoleUser :: "json \<Rightarrow> bool" where
  "hasRoleUser m = (field m ''role'' = Some (JStr ''user''))"

definition hasTypeText :: "json \<Rightarrow> bool" where
  "hasTypeText c = (field c ''type'' = Some (JStr ''text''))"

text \<open>
  The text of a JSON value where its conversion to a string does not raise: the
  rendering of a string is the string, of a number its text, of an array the
  comma-join of the renderings of its entries (\<^verbatim>\<open>null\<close> giving the empty string), of an
  object \<^verbatim>\<open>[object Object]\<close>.
\<close>

fun render :: "json \<Rightarrow> string" where
  "render JNull = ''null''"
| "render (JBool b) = (if b then ''true'' else ''false'')"
| "render (JNum n txt) = txt"
| "render (JStr s) = s"
| "render (JArr xs) = joinWith '','' (map (\<lambda>x. if x = JNull then [] else render x) xs)"
| "render (JObj kvs) = ''[object Object]''"

definition renderElement :: "json option \<Rightarrow> string" where
  "renderElement v = (case v of None \<Rightarrow> [] | Some x \<Rightarrow> if x = JNull then [] else render x)"

text \<open>
  A value whose conversion to a string does not raise: it holds no object with an own
  property \<^verbatim>\<open>toString\<close>, at any depth of nested arrays.
\<close>

fun renderable :: "json \<Rightarrow> bool" where
  "renderable (JArr xs) = list_all renderable xs"
| "renderable (JObj kvs) = (map_of kvs ''toString'' = None)"
| "renderable v = True"

definition renderableElement :: "json option \<Rightarrow> bool" where
  "renderableElement v = (case v of None \<Rightarrow> True | Some x \<Rightarrow> renderable x)"

text \<open>
  The Prompt Extractor as the specification words it: the content of the last user-role
  message when it is a string; the newline-join of the text fields of its text-typed
  parts when it is an array; the empty string when \<^verbatim>\<open>messages\<close> is missing or not an
  array, when there is no user-role message, and for any other content.
\<close>

definition spec_extractPrompt :: "json \<Rightarrow> string" where
  "spec_extractPrompt body =
     (case field body ''messages'' of
        Some (JArr ms) \<Rightarrow>
          (if filter hasRoleUser ms = [] then []
           else (case field (last (filter hasRoleUser ms)) ''content'' of
                   Some (JStr s) \<Rightarrow> s
                 | Some (JArr parts) \<Rightarrow>
                     joinWith [CHR 0x0A]
                       (map (\<lambda>c. renderElement (field c ''text'')) (filter hasTypeText parts))
                 | _ \<Rightarrow> []))
      | _ \<Rightarrow> [])"

text \<open>
  A request body without \<^verbatim>\<open>null\<close> where the extractor reads a property: the body
  itself, the entries of \<^verbatim>\<open>messages\<close>, and the parts of the content of the last
  user-role message.
\<close>

definition nullFree :: "json \<Rightarrow> bool" where
  "nullFree body =
     (body \<noteq> JNull \<and>
      (case field body ''messages'' of
         Some (JArr ms) \<Rightarrow>
           JNull \<notin> set ms \<and>
           (if filter hasRoleUser ms = [] then True
            else (case field (last (filter hasRoleUser ms)) ''content'' of
                    Some (JArr parts) \<Rightarrow> JNull \<notin> set parts
                  | _ \<Rightarrow> True))
       | _ \<Rightarrow> True))"

text \<open>
  A request body in which every text field that the extractor joins can be converted
  to a string: the text fields of the text-typed parts of the content of the last
  user-role message are renderable (a string, a number, a boolean, \<^verbatim>\<open>null\<close> and an
  absent field always are).
\<close>

definition textsRenderable :: "json \<Rightarrow> bool" where
  "textsRenderable body =
     (case field body ''messages'' of
        Some (JArr ms) \<Rightarrow>
          (if filter hasRoleUser ms = [] then True
           else (case field (last (filter hasRoleUser ms)) ''content'' of
                   Some (JArr parts) \<Rightarrow>
                     list_all (\<lambda>c. renderableElement (field c ''text'')) (filter hasTypeText parts)
                 | _ \<Rightarrow> True))
      | _ \<Rightarrow> True)"

text \<open>The three literal prompts of the end-to-end scenarios (test/test.js).\<close>

definition prompt_simple :: string where
  "prompt_simple = ''What is TypeScript?''"

definition prompt_medium :: string where
  "prompt_medium = ''Write a function to reverse a string in JavaScript''"

definition prompt_complex :: string where
  "prompt_complex = ''Architect a distributed system for handling 1M requests per second with proper caching, load balancing, and database sharding. Consider edge cases and error handling.''"

text \<open>
  A text of \<open>n + 1\<close> words: the word \<^verbatim>\<open>a\<close>, repeated, with single spaces between.
\<close>

fun repeatedWords :: "nat \<Rightarrow> string" where
  "repeatedWords 0 = ''a''"
| "repeatedWords (Suc n) = ''a '' @ repeatedWords n"

text \<open>An atom that is a literal character other than \<^verbatim>\<open>a\<close>, \<^verbatim>\<open>A\<close> and the space.\<close>

definition otherLetter :: "atom \<Rightarrow> bool" where
  "otherLetter a =
     (case a of Ch c \<Rightarrow> canonicalize c \<noteq> CHR ''A'' \<and> canonicalize c \<noteq> CHR '' '' | _ \<Rightarrow> False)"

text \<open>\<^verbatim>\<open>CONFIG\<close> when no environment variable is set.\<close>

definition defaultCONFIG :: server_config where
  "defaultCONFIG =
     \<lparr>simpleModel = Some ''claude-3-5-haiku-20241022'',
      mediumModel = Some ''claude-sonnet-4-20250514'',
      complexModel = Some ''claude-opus-4-20250514'',
      simpleThreshold = Some (35 / 100),
      complexThreshold = Some (65 / 100),
      forceModel = None, disabled = False\<rparr>"

text \<open>\<^verbatim>\<open>CONFIG\<close> with the three model names set through the environment.\<close>

definition renamedCONFIG :: server_config where
  "renamedCONFIG =
     \<lparr>simpleModel = Some ''small-model'',
      mediumModel = Some ''mid-model'',
      complexModel = Some ''big-model'',
      simpleThreshold = Some (35 / 100),
      complexThreshold = Some (65 / 100),
      forceModel = None, disabled = False\<rparr>"

text \<open>A configuration whose lower threshold is zero.\<close>

definition zeroThresholdConfig :: config where
  "zeroThresholdConfig =
     \<lparr>simpleModel = None, mediumModel = None, complexModel = None,
      simpleThreshold = Some 0, complexThreshold = Some (65 / 100)\<rparr>"

text \<open>The counters at the start of the process.\<close>

definition initialStats :: stats where
  "initialStats = \<lparr>total = 0, routed = (\<lambda>t. 0), saved = 0\<rparr>"

text \<open>A body whose \<^verbatim>\<open>messages\<close> array holds \<^verbatim>\<open>null\<close>.\<close>

definition nullMessageBody :: json where
  "nullMessageBody = JObj [(''model'', JStr ''claude-opus-4-20250514''), (''messages'', JArr [JNull])]"

text \<open>
  A body whose last user message has one text part, the text being the object
  \<^verbatim>\<open>{"toString": 1}\<close>.
\<close>

definition toStringKeyBody :: json where
  "toStringKeyBody =
     JObj [(''model'', JStr ''claude-opus-4-20250514''),
           (''messages'',
            JArr [JObj [(''role'', JStr ''user''),
                        (''content'',
                         JArr [JObj [(''type'', JStr ''text''),
                                     (''text'', JObj [(''toString'', JNum 1 ''1'')])]])]])]"

text \<open>A body whose last user message has a text part, an image part and a text part.\<close>

definition partsBody :: json where
  "partsBody =
     JObj [(''model'', JStr ''claude-opus-4-20250514''),
           (''messages'',
            JArr [JObj [(''role'', JStr ''user''), (''content'', JStr ''first'')],
                  JObj [(''role'', JStr ''assistant''), (''content'', JStr ''reply'')],
                  JObj [(''role'', JStr ''user''),
                        (''content'',
                         JArr [JObj [(''type'', JStr ''text''), (''text'', JStr ''ab'')],
                               JObj [(''type'', JStr ''image''), (''source'', JStr ''x'')],
                               JObj [(''type'', JStr ''text''), (''text'', JStr ''cd'')]])]])]"

section \<open>Theorems\<close>

subsection \<open>Tier mapping\<close>

lemmas tier_mapper_defs =
  getModelForComplexity_def getModelForScore_def recommendation_def
  thresholds_simple_def thresholds_complex_def
  models_simple_def models_medium_def models_complex_def num_or_def str_or_def

lemma tier_getModelForScore: "tier (getModelForScore s cfg) \<in> {Simple, Medium, Complex}"
  by (simp add: getModelForScore_def)

lemma model_getModelForScore: "\<exists>m. model (getModelForScore s cfg) = Some m"
  by (simp add: getModelForScore_def)

lemma tier_getModelForComplexity: "tier (getModelForComplexity s cfg) \<in> {Simple, Medium, Complex}"
  by (simp add: getModelForComplexity_def recommendation_def)

lemma model_getModelForComplexity: "\<exists>m. model (getModelForComplexity s cfg) = Some m"
  by (simp add: getModelForComplexity_def recommendation_def)

lemma tier_by_thresholds:
  assumes "simpleThreshold cfg = Some st" and "complexThreshold cfg = Some ct"
    and "st \<noteq> 0" and "ct \<noteq> 0"
  shows "tier (getModelForComplexity s cfg) =
           (if s < st then Simple else if s < ct then Medium else Complex)"
  using assms by (simp add: tier_mapper_defs)

text \<open>
  C1, as stated, fails: the configuration with \<^verbatim>\<open>simpleThreshold = 0\<close> and
  \<^verbatim>\<open>complexThreshold = 0.65\<close> maps the score 0, which equals \<^verbatim>\<open>simpleThreshold\<close>, to the
  tier simple and not to medium, because \<^verbatim>\<open>config.simpleThreshold || 0.35\<close> replaces
  the zero by the default.
\<close>

theorem C1_zero_threshold_counterexample:
  "simpleThreshold zeroThresholdConfig = Some 0
   \<and> complexThreshold zeroThresholdConfig = Some (65 / 100)
   \<and> tier (getModelForComplexity 0 zeroThresholdConfig) = Simple
   \<and> tier (getModelForComplexity 0 zeroThresholdConfig) \<noteq> Medium"
  by (simp add: zeroThresholdConfig_def tier_mapper_defs)

text \<open>
  C1 (amended). For every score \<open>s\<close> and every configuration whose two thresholds are
  present and not zero, with \<^verbatim>\<open>simpleThreshold < complexThreshold\<close>, the tier returned by
  \<^verbatim>\<open>getModelForComplexity\<close> is one of simple, medium, complex and is fixed by the three
  intervals: simple exactly when \<open>s < simpleThreshold\<close>, medium exactly when
  \<open>simpleThreshold \<le> s < complexThreshold\<close>, complex exactly when
  \<open>complexThreshold \<le> s\<close>. In particular \<open>s = simpleThreshold\<close> gives medium and
  \<open>s = complexThreshold\<close> gives complex.
\<close>

theorem C1_tier_partition:
  assumes "simpleThreshold cfg = Some st" and "complexThreshold cfg = Some ct"
    and "st \<noteq> 0" and "ct \<noteq> 0" and "st < ct"
  shows "tier (getModelForComplexity s cfg) \<in> {Simple, Medium, Complex}
         \<and> (tier (getModelForComplexity s cfg) = Simple \<longleftrightarrow> s < st)
         \<and> (tier (getModelForComplexity s cfg) = Medium \<longleftrightarrow> st \<le> s \<and> s < ct)
         \<and> (tier (getModelForComplexity s cfg) = Complex \<longleftrightarrow> ct \<le> s)
         \<and> tier (getModelForComplexity st cfg) = Medium
         \<and> tier (getModelForComplexity ct cfg) = Complex"
proof -
  have t: "tier (getModelForComplexity x cfg) =
             (if x < st then Simple else if x < ct then Medium else Complex)" for x
    using assms(1-4) by (rule tier_by_thresholds)
  show ?thesis using \<open>st < ct\<close> by (auto simp add: t)
qed

theorem C1_tier_partition_witness:
  "tier (getModelForComplexity (1 / 2) defaultConfig) = Medium
   \<and> tier (getModelForComplexity (35 / 100) defaultConfig) = Medium
   \<and> tier (getModelForComplexity (65 / 100) defaultConfig) = Complex"
proof -
  have 1: "simpleThreshold defaultConfig = Some (35 / 100)"
    and 2: "complexThreshold defaultConfig = Some (65 / 100)"
    by (simp_all add: defaultConfig_def)
  have 3: "(35 / 100 :: real) \<noteq> 0" and 4: "(65 / 100 :: real) \<noteq> 0"
    and 5: "(35 / 100 :: real) < 65 / 100"
    by simp_all
  show ?thesis using C1_tier_partition [OF 1 2 3 4 5, of "1 / 2"] by simp
qed

text \<open>
  C5, as stated, fails: under the default configuration the score 0.35, equal to
  \<^verbatim>\<open>simpleThreshold\<close>, is not mapped to simple, and the score 0.65, equal to
  \<^verbatim>\<open>complexThreshold\<close>, is not mapped to medium.
\<close>

theorem C5_boundary_counterexample:
  "simpleThreshold defaultConfig = Some (35 / 100)
   \<and> complexThreshold defaultConfig = Some (65 / 100)
   \<and> tier (getModelForComplexity (35 / 100) defaultConfig) \<noteq> Simple
   \<and> tier (getModelForComplexity (65 / 100) defaultConfig) \<noteq> Medium"
  by (simp add: defaultConfig_def tier_mapper_defs)

text \<open>
  C5 (amended). For every configuration whose two thresholds are present and not zero,
  with \<^verbatim>\<open>simpleThreshold < complexThreshold\<close>, the tier mapper assigns a boundary score to
  the upper tier: a score equal to \<^verbatim>\<open>simpleThreshold\<close> gets the medium tier and the
  medium model, a score equal to \<^verbatim>\<open>complexThreshold\<close> gets the complex tier and the
  complex model.
\<close>

theorem C5_boundary_upper_tier:
  assumes "simpleThreshold cfg = Some st" and "complexThreshold cfg = Some ct"
    and "st \<noteq> 0" and "ct \<noteq> 0" and "st < ct"
  shows "getModelForComplexity st cfg = recommendation (models_medium cfg) Medium st
         \<and> getModelForComplexity ct cfg = recommendation (models_complex cfg) Complex ct"
  using assms
  by (simp add: getModelForComplexity_def thresholds_simple_def thresholds_complex_def num_or_def)

theorem C5_boundary_upper_tier_witness:
  "getModelForComplexity (35 / 100) defaultConfig
     = recommendation ''claude-sonnet-4-20250514'' Medium (35 / 100)
   \<and> getModelForComplexity (65 / 100) defaultConfig
     = recommendation ''claude-opus-4-20250514'' Complex (65 / 100)"
proof -
  have 1: "simpleThreshold defaultConfig = Some (35 / 100)"
    and 2: "complexThreshold defaultConfig = Some (65 / 100)"
    by (simp_all add: defaultConfig_def)
  have 3: "(35 / 100 :: real) \<noteq> 0" and 4: "(65 / 100 :: real) \<noteq> 0"
    and 5: "(35 / 100 :: real) < 65 / 100"
    by simp_all
  have m: "models_medium defaultConfig = ''claude-sonnet-4-20250514''"
    and c: "models_complex defaultConfig = ''claude-opus-4-20250514''"
    by (simp_all add: models_medium_def models_complex_def str_or_def defaultConfig_def)
  show ?thesis using C5_boundary_upper_tier [OF 1 2 3 4 5] by (simp add: m c)
qed

text \<open>
  C10. The two tier mappers, \<^verbatim>\<open>getModelForComplexity\<close> of classifier.js and
  \<^verbatim>\<open>getModelForScore\<close> of ollama-classifier.js, return the same object
  (model, tier, score) for every score and every configuration.
\<close>

theorem C10_tier_mappers_equal:
  "getModelForComplexity s cfg = getModelForScore s cfg"
  by (simp add: getModelForComplexity_def getModelForScore_def recommendation_def
        thresholds_simple_def thresholds_complex_def
        models_simple_def models_medium_def models_complex_def)

subsection \<open>Heuristic scorer\<close>

lemma clamp_bounds: "0 \<le> max 0 (min 1 (x::real)) \<and> max 0 (min 1 x) \<le> 1"
  by simp

lemma complexityOfText_bounds: "0 \<le> complexityOfText text \<and> complexityOfText text \<le> 1"
  unfolding complexityOfText_def Let_def case_prod_beta by (rule clamp_bounds)

lemma calculateComplexity_string: "calculateComplexity (PString text) = Inr (complexityOfText text)"
  by (simp add: calculateComplexity_def promptText_def)

lemma calculateComplexity_serialized:
  "calculateComplexity (PValue (Some text)) = Inr (complexityOfText text)"
  by (simp add: calculateComplexity_def promptText_def)

text \<open>
  C9, as stated, fails: for the input \<^verbatim>\<open>undefined\<close>, which is not a string,
  \<^verbatim>\<open>JSON.stringify\<close> returns \<^verbatim>\<open>undefined\<close> and not a text, the call of
  \<^verbatim>\<open>text.split\<close> raises a TypeError, and there is no score.
\<close>

theorem C9_undefined_counterexample:
  "calculateComplexity (PValue None) = Inl TypeError"
  by (simp add: calculateComplexity_def promptText_def)

text \<open>
  C9 (amended). For every input text, the empty string included, the heuristic score
  exists and lies between 0 and 1; the same holds for every input that is not a string
  and that \<^verbatim>\<open>JSON.stringify\<close> serialises to a text, the score being that of the text.
\<close>

theorem C9_score_clamped:
  "(\<exists>s. calculateComplexity (PString text) = Inr s \<and> 0 \<le> s \<and> s \<le> 1)
   \<and> (\<exists>s. calculateComplexity (PString []) = Inr s \<and> 0 \<le> s \<and> s \<le> 1)
   \<and> (\<exists>s. calculateComplexity (PValue (Some text)) = Inr s \<and> 0 \<le> s \<and> s \<le> 1)"
  by (simp add: calculateComplexity_string calculateComplexity_serialized complexityOfText_bounds)

lemma lengthScoring_over_200: "200 < wc \<Longrightarrow> lengthScoring wc s = s + 1 / 10"
  by (simp add: lengthScoring_def)

subsection \<open>The three literal prompts\<close>

text \<open>Evaluation rules for the matcher on literal characters.\<close>

lemma canonicalize_Char:
  "canonicalize (Char b0 b1 b2 b3 b4 b5 b6 b7) =
     (if \<not> b7 \<and> b6 \<and> b5 \<and> (b0 \<or> b1 \<or> b2 \<or> b3 \<or> b4) \<and> \<not> (b4 \<and> b3 \<and> (b2 \<or> (b1 \<and> b0)))
      then Char b0 b1 b2 b3 b4 False b6 b7 else Char b0 b1 b2 b3 b4 b5 b6 b7)"
  by (cases b0; cases b1; cases b2; cases b3; cases b4; cases b5; cases b6; cases b7;
      simp add: canonicalize_def)

lemma isLineTerminator_Char:
  "isLineTerminator (Char b0 b1 b2 b3 b4 b5 b6 b7) =
     (\<not> b0 \<and> b1 \<and> \<not> b2 \<and> b3 \<and> \<not> b4 \<and> \<not> b5 \<and> \<not> b6 \<and> \<not> b7 \<or>
      b0 \<and> \<not> b1 \<and> b2 \<and> b3 \<and> \<not> b4 \<and> \<not> b5 \<and> \<not> b6 \<and> \<not> b7)"
  by (auto simp add: isLineTerminator_def)

lemma matchAnywhere_Ch:
  "matchAnywhere (Ch c # r) (x # xs) =
     (if canonicalize x = canonicalize c
      then (if matchHere r xs then True else matchAnywhere (Ch c # r) xs)
      else matchAnywhere (Ch c # r) xs)"
  by simp

lemmas match_eval =
  countMatches_def rx_def test_def matchAnywhere_Ch canonicalize_Char isLineTerminator_Char

lemma simple_wordCount: "wordCount prompt_simple = 3"
  by (simp add: prompt_simple_def wordCount_def isWhiteSpace_def)

lemma simple_code: "analyzeCodeContent prompt_simple = (0, 0)"
  by (simp add: prompt_simple_def analyzeCodeContent_def fence_def)

lemma simple_complexMatches: "countMatches COMPLEX_PATTERNS prompt_simple = 0"
  by (simp add: prompt_simple_def COMPLEX_PATTERNS_def match_eval del: matchAnywhere.simps(2))

lemma simple_simpleMatches: "countMatches SIMPLE_PATTERNS prompt_simple = 1"
  by (simp add: prompt_simple_def SIMPLE_PATTERNS_def match_eval del: matchAnywhere.simps(2))

lemma simple_mediumMatches: "countMatches MEDIUM_PATTERNS prompt_simple = 0"
  by (simp add: prompt_simple_def MEDIUM_PATTERNS_def match_eval del: matchAnywhere.simps(2))

lemma simple_questionMarks: "questionMarks prompt_simple = 1"
  by (simp add: prompt_simple_def questionMarks_def)

lemma simple_numberedItems: "numberedItems prompt_simple = 0"
  by (simp add: prompt_simple_def numberedItems_def numberedPrefix_def isDigit_def
        isLineTerminator_Char)

lemma simple_score: "complexityOfText prompt_simple = 15 / 100"
  by (simp add: complexityOfText_def simple_wordCount simple_code simple_complexMatches
        simple_simpleMatches simple_mediumMatches simple_questionMarks simple_numberedItems
        lengthScoring_def codeScoring_def)

lemma medium_wordCount: "wordCount prompt_medium = 9"
  by (simp add: prompt_medium_def wordCount_def isWhiteSpace_def)

lemma medium_code: "analyzeCodeContent prompt_medium = (0, 0)"
  by (simp add: prompt_medium_def analyzeCodeContent_def fence_def)

lemma medium_complexMatches: "countMatches COMPLEX_PATTERNS prompt_medium = 0"
  by (simp add: prompt_medium_def COMPLEX_PATTERNS_def match_eval del: matchAnywhere.simps(2))

lemma medium_simpleMatches: "countMatches SIMPLE_PATTERNS prompt_medium = 0"
  by (simp add: prompt_medium_def SIMPLE_PATTERNS_def match_eval del: matchAnywhere.simps(2))

lemma medium_mediumMatches: "countMatches MEDIUM_PATTERNS prompt_medium = 1"
  by (simp add: prompt_medium_def MEDIUM_PATTERNS_def match_eval del: matchAnywhere.simps(2))

lemma medium_questionMarks: "questionMarks prompt_medium = 0"
  by (simp add: prompt_medium_def questionMarks_def)

lemma medium_numberedItems: "numberedItems prompt_medium = 0"
  by (simp add: prompt_medium_def numberedItems_def numberedPrefix_def isDigit_def
        isLineTerminator_Char)

lemma medium_score: "complexityOfText prompt_medium = 38 / 100"
  by (simp add: complexityOfText_def medium_wordCount medium_code medium_complexMatches
        medium_simpleMatches medium_mediumMatches medium_questionMarks medium_numberedItems
        lengthScoring_def codeScoring_def)

lemma complex_wordCount: "wordCount prompt_complex = 24"
  by (simp add: prompt_complex_def wordCount_def isWhiteSpace_def)

lemma complex_code: "analyzeCodeContent prompt_complex = (0, 0)"
  by (simp add: prompt_complex_def analyzeCodeContent_def fence_def)

lemma complex_complexMatches: "countMatches COMPLEX_PATTERNS prompt_complex = 4"
  by (simp add: prompt_complex_def COMPLEX_PATTERNS_def match_eval del: matchAnywhere.simps(2))

lemma complex_simpleMatches: "countMatches SIMPLE_PATTERNS prompt_complex = 0"
  by (simp add: prompt_complex_def SIMPLE_PATTERNS_def match_eval del: matchAnywhere.simps(2))

lemma complex_mediumMatches: "countMatches MEDIUM_PATTERNS prompt_complex = 0"
  by (simp add: prompt_complex_def MEDIUM_PATTERNS_def match_eval del: matchAnywhere.simps(2))

lemma complex_questionMarks: "questionMarks prompt_complex = 0"
  by (simp add: prompt_complex_def questionMarks_def)

lemma complex_numberedItems: "numberedItems prompt_complex = 0"
  by (simp add: prompt_complex_def numberedItems_def numberedPrefix_def isDigit_def
        isLineTerminator_Char)

lemma complex_score: "complexityOfText prompt_complex = 77 / 100"
  by (simp add: complexityOfText_def complex_wordCount complex_code complex_complexMatches
        complex_simpleMatches complex_mediumMatches complex_questionMarks complex_numberedItems
        lengthScoring_def codeScoring_def)

lemma classify_string:
  "classify (PString p) cfg =
     Inr ((getModelForComplexity (complexityOfText p) cfg)\<lparr>prompt := Some (promptPreview (PString p))\<rparr>)"
  by (simp add: classify_def calculateComplexity_string)

lemma default_thresholds:
  "thresholds_simple emptyConfig = 35 / 100" "thresholds_complex emptyConfig = 65 / 100"
  "thresholds_simple defaultConfig = 35 / 100" "thresholds_complex defaultConfig = 65 / 100"
  by (simp_all add: thresholds_simple_def thresholds_complex_def num_or_def
        emptyConfig_def defaultConfig_def)

text \<open>
  C6. With the default thresholds 0.35 and 0.65 (the empty configuration of the test
  suite, and the configuration the proxy builds by default), the heuristic classifier
  gives: for "What is TypeScript?" the tier simple with a score below 0.35; for "Write
  a function to reverse a string in JavaScript" the tier medium with a score from 0.35
  up to but not including 0.65; for the "Architect a distributed system ..." prompt the
  tier complex with a score of at least 0.65. The scores are 0.15, 0.38 and 0.77.
\<close>

theorem C6_literal_prompts:
  "(\<exists>c. classify (PString prompt_simple) emptyConfig = Inr c
        \<and> tier c = Simple \<and> score c = 15 / 100 \<and> score c < 35 / 100)
   \<and> (\<exists>c. classify (PString prompt_medium) emptyConfig = Inr c
        \<and> tier c = Medium \<and> score c = 38 / 100 \<and> 35 / 100 \<le> score c \<and> score c < 65 / 100)
   \<and> (\<exists>c. classify (PString prompt_complex) emptyConfig = Inr c
        \<and> tier c = Complex \<and> score c = 77 / 100 \<and> 65 / 100 \<le> score c)
   \<and> (\<exists>c. classify (PString prompt_simple) defaultConfig = Inr c
        \<and> tier c = Simple \<and> score c < 35 / 100)
   \<and> (\<exists>c. classify (PString prompt_medium) defaultConfig = Inr c
        \<and> tier c = Medium \<and> 35 / 100 \<le> score c \<and> score c < 65 / 100)
   \<and> (\<exists>c. classify (PString prompt_complex) defaultConfig = Inr c
        \<and> tier c = Complex \<and> 65 / 100 \<le> score c)"
  by (simp add: classify_string simple_score medium_score complex_score
        getModelForComplexity_def recommendation_def default_thresholds)

subsection \<open>Texts of many words\<close>

lemma set_repeatedWords: "set (repeatedWords n) \<subseteq> {CHR ''a'', CHR '' ''}"
  by (induction n) auto

lemma splitWhiteSpace_repeatedWords:
  "length (splitWhiteSpace cur inSep (repeatedWords n)) = n + 1"
  by (induction n arbitrary: cur inSep) (simp_all add: isWhiteSpace_def)

lemma wordCount_repeatedWords: "wordCount (repeatedWords n) = n + 1"
  by (simp add: wordCount_def splitWhiteSpace_repeatedWords)

text \<open>
  A pattern that holds a literal character outside the alphabet of the text (up to
  case) matches nowhere in the text.
\<close>

lemma matchHere_foreign_char:
  assumes "Ch c \<in> set p" and "\<forall>x\<in>set s. canonicalize x \<noteq> canonicalize c"
  shows "\<not> matchHere p s"
  using assms
proof (induction p s rule: matchHere.induct)
  case (1 s)
  then show ?case by simp
next
  case (2 c' r)
  then show ?case by simp
next
  case (3 c' r x xs)
  then show ?case by (cases "c' = c") auto
next
  case (4 r)
  then show ?case by simp
next
  case (5 r x xs)
  then show ?case by auto
next
  case (6 r)
  then show ?case by simp
next
  case (7 r x xs)
  then show ?case by auto
next
  case (8 r)
  then show ?case by simp
next
  case (9 r x xs)
  then show ?case by auto
qed

lemma matchAnywhere_foreign_char:
  assumes "Ch c \<in> set p" and "\<forall>x\<in>set s. canonicalize x \<noteq> canonicalize c"
  shows "\<not> matchAnywhere p s"
  using assms
proof (induction s)
  case Nil
  then show ?case using matchHere_foreign_char [of c p "[]"] by simp
next
  case (Cons x xs)
  then have "\<not> matchHere p (x # xs)" using matchHere_foreign_char [of c p "x # xs"] by blast
  moreover have "\<not> matchAnywhere p xs" using Cons by simp
  ultimately show ?case by simp
qed

lemma test_foreign_char:
  assumes "Ch c \<in> set (snd p)" and "\<forall>x\<in>set s. canonicalize x \<noteq> canonicalize c"
  shows "\<not> test p s"
  using assms matchHere_foreign_char matchAnywhere_foreign_char by (simp add: test_def)

lemma countMatches_foreign:
  assumes "\<forall>p\<in>set ps. \<exists>c. Ch c \<in> set (snd p) \<and> (\<forall>x\<in>set s. canonicalize x \<noteq> canonicalize c)"
  shows "countMatches ps s = 0"
proof -
  have "\<forall>p\<in>set ps. \<not> test p s" using assms test_foreign_char by blast
  then show ?thesis by (simp add: countMatches_def)
qed

lemma matchCodeBlocks_no_fence: "CHR 0x60 \<notin> set s \<Longrightarrow> matchCodeBlocks s = []"
proof (induction s)
  case Nil
  then show ?case by simp
next
  case (Cons c cs)
  then have "c \<noteq> CHR 0x60" by auto
  then have "take 3 (c # cs) \<noteq> fence" by (auto simp add: fence_def)
  then have "matchCodeBlocks (c # cs) = matchCodeBlocks cs" by simp
  with Cons show ?case by simp
qed

lemma numberedItemsFrom_no_digit:
  "\<forall>x\<in>set s. \<not> isDigit x \<Longrightarrow> numberedItemsFrom b s = 0"
  by (induction s arbitrary: b) (simp_all add: numberedPrefix_def)

text \<open>
  Every pattern of the library has such a character among its first two atoms, so no
  pattern matches a text of words \<^verbatim>\<open>a\<close>.
\<close>

lemma test_otherLetter:
  assumes "list_ex otherLetter (take 2 (snd p))"
  shows "\<not> test p (repeatedWords n)"
proof -
  from assms obtain a where "a \<in> set (take 2 (snd p))" and o: "otherLetter a"
    by (auto simp add: list_ex_iff)
  then have a: "a \<in> set (snd p)" by (blast dest: in_set_takeD)
  from o obtain c where c: "a = Ch c" and n1: "canonicalize c \<noteq> CHR ''A''"
    and n2: "canonicalize c \<noteq> CHR '' ''"
    by (cases a) (auto simp add: otherLetter_def)
  have "\<forall>x\<in>set (repeatedWords n). canonicalize x \<noteq> canonicalize c"
  proof
    fix x assume "x \<in> set (repeatedWords n)"
    then have "x = CHR ''a'' \<or> x = CHR '' ''" using set_repeatedWords [of n] by auto
    moreover have "canonicalize CHR ''a'' = CHR ''A''" and "canonicalize CHR '' '' = CHR '' ''"
      by (simp_all add: canonicalize_def)
    ultimately show "canonicalize x \<noteq> canonicalize c"
      using n1 n2 by auto
  qed
  then show ?thesis using a c test_foreign_char by blast
qed

lemma countMatches_repeatedWords:
  assumes "\<forall>p\<in>set ps. list_ex otherLetter (take 2 (snd p))"
  shows "countMatches ps (repeatedWords n) = 0"
proof -
  have "\<forall>p\<in>set ps. \<not> test p (repeatedWords n)" using assms test_otherLetter by blast
  then show ?thesis by (simp add: countMatches_def)
qed

lemma complex_patterns_otherLetter: "\<forall>p\<in>set COMPLEX_PATTERNS. list_ex otherLetter (take 2 (snd p))"
  by (simp add: COMPLEX_PATTERNS_def rx_def otherLetter_def canonicalize_Char)

lemma simple_patterns_otherLetter: "\<forall>p\<in>set SIMPLE_PATTERNS. list_ex otherLetter (take 2 (snd p))"
  by (simp add: SIMPLE_PATTERNS_def rx_def otherLetter_def canonicalize_Char)

lemma medium_patterns_otherLetter: "\<forall>p\<in>set MEDIUM_PATTERNS. list_ex otherLetter (take 2 (snd p))"
  by (simp add: MEDIUM_PATTERNS_def rx_def otherLetter_def canonicalize_Char)

lemma analyzeCodeContent_repeatedWords: "analyzeCodeContent (repeatedWords n) = (0, 0)"
proof -
  have "CHR 0x60 \<notin> set (repeatedWords n)" using set_repeatedWords [of n] by auto
  then show ?thesis by (simp add: analyzeCodeContent_def matchCodeBlocks_no_fence)
qed

lemma questionMarks_repeatedWords: "questionMarks (repeatedWords n) = 0"
proof -
  have "CHR ''?'' \<notin> set (repeatedWords n)" using set_repeatedWords [of n] by auto
  then have "filter (\<lambda>c. c = CHR ''?'') (repeatedWords n) = []"
    by (auto simp add: filter_empty_conv)
  then show ?thesis by (simp add: questionMarks_def)
qed

lemma numberedItems_repeatedWords: "numberedItems (repeatedWords n) = 0"
proof -
  have "\<forall>x\<in>set (repeatedWords n). \<not> isDigit x"
    using set_repeatedWords [of n] by (auto simp add: isDigit_def)
  then show ?thesis by (simp add: numberedItems_def numberedItemsFrom_no_digit)
qed

lemma complexityOfText_repeatedWords:
  "complexityOfText (repeatedWords n) = max 0 (min 1 (lengthScoring (n + 1) (5 / 10)))"
  by (simp add: complexityOfText_def wordCount_repeatedWords analyzeCodeContent_repeatedWords
        countMatches_repeatedWords complex_patterns_otherLetter simple_patterns_otherLetter
        medium_patterns_otherLetter questionMarks_repeatedWords numberedItems_repeatedWords
        codeScoring_def)

text \<open>
  C4. The claim asks that a text of more than 500 words gets a larger word-count
  adjustment than a text of 201 to 500 words. The code gives both the same adjustment
  of 0.1: the test \<^verbatim>\<open>wordCount > 200\<close> stands before \<^verbatim>\<open>wordCount > 500\<close> in the chain,
  so the branch that adds 0.2 is never taken. Evaluated on the text of 600 words
  \<^verbatim>\<open>a\<close> and on the text of 300 words \<^verbatim>\<open>a\<close>, which differ in nothing but the word
  count: both get the score 0.6.
\<close>

theorem C4_very_long_same_as_long:
  "wordCount (repeatedWords 599) = 600 \<and> wordCount (repeatedWords 299) = 300
   \<and> calculateComplexity (PString (repeatedWords 599)) = Inr (6 / 10)
   \<and> calculateComplexity (PString (repeatedWords 299)) = Inr (6 / 10)
   \<and> lengthScoring 600 (5 / 10) = lengthScoring 300 (5 / 10)"
proof -
  have w: "wordCount (repeatedWords 599) = 599 + 1" "wordCount (repeatedWords 299) = 299 + 1"
    by (rule wordCount_repeatedWords)+
  have l: "lengthScoring (599 + 1) (5 / 10) = 6 / 10" "lengthScoring (299 + 1) (5 / 10) = 6 / 10"
    "lengthScoring 600 (5 / 10) = lengthScoring 300 (5 / 10)"
    by (simp_all add: lengthScoring_def)
  have c: "complexityOfText (repeatedWords 599) = 6 / 10"
    "complexityOfText (repeatedWords 299) = 6 / 10"
    unfolding complexityOfText_repeatedWords l by simp_all
  have "calculateComplexity (PString (repeatedWords 599)) = Inr (6 / 10)"
    "calculateComplexity (PString (repeatedWords 299)) = Inr (6 / 10)"
    unfolding calculateComplexity_string c by (rule refl)+
  moreover have "wordCount (repeatedWords 599) = 600" "wordCount (repeatedWords 299) = 300"
    unfolding w by simp_all
  ultimately show ?thesis using l(3) by blast
qed

subsection \<open>Prompt extractor\<close>

lemma getProp_field: "v \<noteq> JNull \<Longrightarrow> getProp v k = Inr (field v k)"
  by (cases v) (simp_all add: getProp_def field_def)

lemma filterE_isUserMessage:
  "JNull \<notin> set ms \<Longrightarrow> filterE isUserMessage ms = Inr (filter hasRoleUser ms)"
  by (induction ms) (auto simp: isUserMessage_def hasRoleUser_def getProp_field)

lemma filterE_isTextPart:
  "JNull \<notin> set ps \<Longrightarrow> filterE isTextPart ps = Inr (filter hasTypeText ps)"
  by (induction ps) (auto simp: isTextPart_def hasTypeText_def getProp_field)

lemma mapE_text:
  "JNull \<notin> set ps \<Longrightarrow>
     mapE (\<lambda>c. getProp c ''text'') ps = Inr (map (\<lambda>c. field c ''text'') ps)"
  by (induction ps) (auto simp: getProp_field)

lemma last_user_not_null:
  assumes "filter hasRoleUser ms \<noteq> []"
  shows "last (filter hasRoleUser ms) \<noteq> JNull"
proof -
  from assms have "last (filter hasRoleUser ms) \<in> set (filter hasRoleUser ms)"
    by (rule last_in_set)
  then have "hasRoleUser (last (filter hasRoleUser ms))" by simp
  then show ?thesis by (auto simp: hasRoleUser_def field_def)
qed

lemma sequenceE_map:
  assumes "\<And>x. x \<in> set xs \<Longrightarrow> f x = Inr (g x)"
  shows "sequenceE (map f xs) = Inr (map g xs)"
  using assms by (induction xs) simp_all

lemma error_eq: "(e :: error) = e'"
  by (cases e; cases e') simp

lemma sequenceE_error:
  assumes "x \<in> set xs" and "f x = Inl TypeError"
  shows "sequenceE (map f xs) = Inl TypeError"
  using assms by (induction xs) (auto split: sum.splits intro: error_eq)

text \<open>The conversion raises exactly on the values that are not renderable.\<close>

lemma toString_render:
  "toString v = (if renderable v then Inr (render v) else Inl TypeError)"
proof (induction v)
  case (JArr xs)
  show ?case
  proof (cases "list_all renderable xs")
    case True
    have "sequenceE (map (\<lambda>x. if x = JNull then Inr [] else toString x) xs)
            = Inr (map (\<lambda>x. if x = JNull then [] else render x) xs)"
    proof (rule sequenceE_map)
      fix x assume x: "x \<in> set xs"
      with True have "renderable x" by (simp add: list_all_iff)
      with JArr x show "(if x = JNull then Inr [] else toString x)
                          = Inr (if x = JNull then [] else render x)"
        by simp
    qed
    with True show ?thesis by simp
  next
    case False
    then obtain x where x: "x \<in> set xs" and n: "\<not> renderable x"
      by (auto simp add: list_all_iff)
    from n have "x \<noteq> JNull" by auto
    with JArr x n have "(if x = JNull then Inr [] else toString x) = Inl TypeError"
      by simp
    with x have "sequenceE (map (\<lambda>x. if x = JNull then Inr [] else toString x) xs)
                   = Inl TypeError"
      by (rule sequenceE_error)
    with False show ?thesis by simp
  qed
qed simp_all

lemma joinElement_render:
  "renderableElement v \<Longrightarrow> joinElement v = Inr (renderElement v)"
  by (cases v)
     (simp_all add: joinElement_def renderElement_def renderableElement_def toString_render)

lemma mapE_joinElement:
  "list_all renderableElement vs \<Longrightarrow> mapE joinElement vs = Inr (map renderElement vs)"
  by (induction vs) (simp_all add: joinElement_render)

lemmas extract_defs =
  extractPrompt_def spec_extractPrompt_def getProp_field truthy_def isArray_def

text \<open>
  C7, as stated, fails in two ways. The body \<^verbatim>\<open>{"model": ..., "messages": [null]}\<close>
  makes the callback \<^verbatim>\<open>m => m.role === 'user'\<close> read a property of \<^verbatim>\<open>null\<close>, and
  \<^verbatim>\<open>extractPrompt\<close> raises a TypeError. The body whose last user message has the text
  part \<^verbatim>\<open>{"type": "text", "text": {"toString": 1}}\<close> makes \<^verbatim>\<open>join\<close> convert an object
  whose own property \<^verbatim>\<open>toString\<close> is not a function, and \<^verbatim>\<open>extractPrompt\<close> raises a
  TypeError.
\<close>

theorem C7_extractPrompt_counterexample:
  "extractPrompt nullMessageBody = Inl TypeError
   \<and> extractPrompt toStringKeyBody = Inl TypeError"
  by (simp add: nullMessageBody_def toStringKeyBody_def extractPrompt_def getProp_def
        truthy_def isArray_def isUserMessage_def isTextPart_def joinElement_def)

text \<open>
  C7 (amended). For every request body that holds no \<^verbatim>\<open>null\<close> where the extractor
  reads a property (the body, the entries of \<^verbatim>\<open>messages\<close>, the parts of the content of
  the last user-role message), and in which the text fields to be joined hold no
  object with an own property \<^verbatim>\<open>toString\<close>, \<^verbatim>\<open>extractPrompt\<close> returns without
  raising, and returns what the specification says: the content of the last user-role
  message when it is a string; the newline-join of the text fields of its text-typed
  parts when it is an array; the empty string when \<^verbatim>\<open>messages\<close> is missing or not an
  array or holds no user-role message (and for a content that is neither a string nor
  an array).
\<close>

theorem C7_extractPrompt_refines_spec:
  assumes "nullFree body" and "textsRenderable body"
  shows "extractPrompt body = Inr (spec_extractPrompt body)"
proof -
  from assms have b: "body \<noteq> JNull" by (simp add: nullFree_def)
  show ?thesis
  proof (cases "field body ''messages''")
    case None
    then show ?thesis using b by (simp add: extract_defs)
  next
    case (Some v)
    note msgs = Some
    show ?thesis
    proof (cases v)
      case (JArr ms)
      with msgs assms have nn: "JNull \<notin> set ms" by (simp add: nullFree_def)
      show ?thesis
      proof (cases "filter hasRoleUser ms = []")
        case True
        then show ?thesis using b msgs JArr nn
          by (simp add: extract_defs filterE_isUserMessage)
      next
        case False
        note ln = last_user_not_null [OF False]
        show ?thesis
        proof (cases "field (last (filter hasRoleUser ms)) ''content''")
          case None
          then show ?thesis using b msgs JArr nn False ln
            by (simp add: extract_defs filterE_isUserMessage)
        next
          case (Some cv)
          from assms(1) msgs JArr False Some
          have pn: "\<And>parts. cv = JArr parts \<Longrightarrow> JNull \<notin> set parts"
            by (auto simp add: nullFree_def)
          from assms(2) msgs JArr False Some
          have pr: "\<And>parts. cv = JArr parts \<Longrightarrow>
                      list_all renderableElement
                        (map (\<lambda>c. field c ''text'') (filter hasTypeText parts))"
            by (auto simp add: textsRenderable_def list_all_iff)
          show ?thesis using b msgs JArr nn False ln Some pn pr
            by (cases cv)
               (simp_all add: extract_defs filterE_isUserMessage filterE_isTextPart
                  mapE_text mapE_joinElement o_def)
        qed
      qed
    qed (use b msgs in \<open>simp_all add: extract_defs\<close>)
  qed
qed

theorem C7_extractPrompt_refines_spec_witness:
  "nullFree partsBody \<and> textsRenderable partsBody
   \<and> extractPrompt partsBody = Inr [CHR ''a'', CHR ''b'', CHR 0x0A, CHR ''c'', CHR ''d'']"
proof -
  have n: "nullFree partsBody"
    by (simp add: nullFree_def partsBody_def field_def hasRoleUser_def)
  have t: "textsRenderable partsBody"
    by (simp add: textsRenderable_def partsBody_def field_def hasRoleUser_def hasTypeText_def
          renderableElement_def)
  have s: "spec_extractPrompt partsBody = [CHR ''a'', CHR ''b'', CHR 0x0A, CHR ''c'', CHR ''d'']"
    by (simp add: spec_extractPrompt_def partsBody_def field_def hasRoleUser_def
          hasTypeText_def renderElement_def)
  show ?thesis using C7_extractPrompt_refines_spec [OF n t] n t by (simp add: s)
qed

subsection \<open>External scorer\<close>

lemma isWhiteSpace_not_digit: "isWhiteSpace c \<Longrightarrow> \<not> isDigit c"
  by (auto simp: isWhiteSpace_def isDigit_def)

lemma takeWhile_none: "\<forall>c\<in>set b. \<not> P c \<Longrightarrow> takeWhile P b = []"
  by (cases b) auto

lemma dropWhile_all: "\<forall>c\<in>set b. P c \<Longrightarrow> dropWhile P b = []"
  by (induction b) auto

lemma firstDigits_prefix:
  "\<forall>c\<in>set a. \<not> isDigit c \<Longrightarrow> firstDigits (a @ t) = firstDigits t"
  by (simp add: firstDigits_def dropWhile_append2)

lemma takeWhile_suffix:
  "\<forall>c\<in>set b. \<not> P c \<Longrightarrow> takeWhile P (a @ b) = takeWhile P a"
  by (induction a) (simp_all add: takeWhile_none)

lemma firstDigits_suffix:
  "\<forall>c\<in>set b. \<not> isDigit c \<Longrightarrow> firstDigits (a @ b) = firstDigits a"
proof (induction a)
  case Nil
  then show ?case by (simp add: firstDigits_def dropWhile_all)
next
  case (Cons x a)
  show ?case
  proof (cases "isDigit x")
    case True
    then show ?thesis using Cons.prems by (simp add: firstDigits_def takeWhile_suffix)
  next
    case False
    then show ?thesis using Cons by (simp add: firstDigits_def)
  qed
qed

text \<open>Trimming removes white space only, so it does not move the first run of digits.\<close>

lemma firstDigits_trim: "firstDigits (trim t) = firstDigits t"
proof -
  let ?u = "dropWhile isWhiteSpace t"
  have 1: "firstDigits t = firstDigits ?u"
  proof -
    have "t = takeWhile isWhiteSpace t @ ?u" by simp
    moreover have "\<forall>c\<in>set (takeWhile isWhiteSpace t). \<not> isDigit c"
      by (auto dest: set_takeWhileD isWhiteSpace_not_digit)
    ultimately show ?thesis by (metis firstDigits_prefix)
  qed
  have 2: "?u = trim t @ rev (takeWhile isWhiteSpace (rev ?u))"
    unfolding trim_def by (metis rev_append rev_rev_ident takeWhile_dropWhile_id)
  have 3: "\<forall>c\<in>set (rev (takeWhile isWhiteSpace (rev ?u))). \<not> isDigit c"
    by (auto dest: set_takeWhileD isWhiteSpace_not_digit)
  have "firstDigits ?u = firstDigits (trim t)"
    using firstDigits_suffix [OF 3, of "trim t"] 2 by simp
  with 1 show ?thesis by simp
qed

lemma firstDigits_run:
  assumes "\<forall>c\<in>set pre. \<not> isDigit c" and "ds \<noteq> []" and "\<forall>c\<in>set ds. isDigit c"
    and "post = [] \<or> (\<exists>c cs. post = c # cs \<and> \<not> isDigit c)"
  shows "firstDigits (pre @ ds @ post) = ds"
proof -
  from assms(2) obtain d ds' where ds: "ds = d # ds'" by (cases ds) auto
  with assms(3) have d: "isDigit d" by simp
  have "firstDigits (pre @ ds @ post) = firstDigits (ds @ post)"
    using assms(1) by (rule firstDigits_prefix)
  also have "\<dots> = takeWhile isDigit (ds @ post)"
    using ds d by (simp add: firstDigits_def)
  also have "\<dots> = ds @ takeWhile isDigit post"
    using assms(3) by (simp add: takeWhile_append2)
  also have "takeWhile isDigit post = []"
    using assms(4) by auto
  finally show ?thesis by simp
qed

lemma firstDigits_no_digit: "\<forall>c\<in>set t. \<not> isDigit c \<Longrightarrow> firstDigits t = []"
  by (simp add: firstDigits_def dropWhile_all)

lemma scoreOfResponse_bounds: "0 \<le> scoreOfResponse t \<and> scoreOfResponse t \<le> 1"
  by (simp add: scoreOfResponse_def Let_def)

lemma parseInt_five: "parseInt ''5'' = 5"
  by (simp add: parseInt_def digitValue_def)

text \<open>\<^verbatim>\<open>parseInt\<close> reads a decimal numeral: appending a digit multiplies by ten and adds it.\<close>

lemma parseInt_snoc: "parseInt (ds @ [d]) = 10 * parseInt ds + digitValue d"
  by (simp add: parseInt_def)

lemma classifyWithOllama_text:
  "field data ''response'' = Some (JStr t) \<Longrightarrow>
     classifyWithOllama (PString p) (HttpResponse data) = Inr (Some (scoreOfResponse t))"
  by (cases data) (simp_all add: classifyWithOllama_def field_def getProp_def)

lemma classifyWithOllama_malformed:
  "\<forall>t. field data ''response'' \<noteq> Some (JStr t) \<Longrightarrow>
     classifyWithOllama (PString p) (HttpResponse data) = Inr None"
  by (cases data)
     (auto simp add: classifyWithOllama_def field_def getProp_def
        split: option.splits json.splits)

text \<open>
  C8. For every string prompt and every outcome of the call of the Ollama server,
  \<^verbatim>\<open>classifyWithOllama\<close> returns a value and does not raise. It returns \<^verbatim>\<open>null\<close> when the
  call fails (time-out, transport error) and when the response is malformed (its data has
  no string field \<^verbatim>\<open>response\<close>). Otherwise it returns a score between 0 and 1: the first
  run of digits of the response text, read as a decimal integer, divided by 10 and
  capped at 1; and 5 / 10 when the text holds no digit.
\<close>

theorem C8_classifyWithOllama:
  "(\<exists>r. classifyWithOllama (PString p) reply = Inr r) \<and>
   (reply = HttpFailure \<longrightarrow> classifyWithOllama (PString p) reply = Inr None) \<and>
   (\<forall>data. reply = HttpResponse data \<and> (\<forall>t. field data ''response'' \<noteq> Some (JStr t))
      \<longrightarrow> classifyWithOllama (PString p) reply = Inr None) \<and>
   (\<forall>data t. reply = HttpResponse data \<and> field data ''response'' = Some (JStr t) \<longrightarrow>
      (\<exists>s. classifyWithOllama (PString p) reply = Inr (Some s) \<and> 0 \<le> s \<and> s \<le> 1) \<and>
      ((\<forall>c\<in>set t. \<not> isDigit c) \<longrightarrow> classifyWithOllama (PString p) reply = Inr (Some (5 / 10))) \<and>
      (\<forall>pre ds post. t = pre @ ds @ post \<and> (\<forall>c\<in>set pre. \<not> isDigit c) \<and> ds \<noteq> []
          \<and> (\<forall>c\<in>set ds. isDigit c) \<and> (post = [] \<or> (\<exists>c cs. post = c # cs \<and> \<not> isDigit c))
         \<longrightarrow> classifyWithOllama (PString p) reply
               = Inr (Some (min 1 (real (parseInt ds) / 10)))))"
proof (cases reply)
  case HttpFailure
  then show ?thesis by (simp add: classifyWithOllama_def)
next
  case (HttpResponse data)
  show ?thesis
  proof (cases "\<exists>t. field data ''response'' = Some (JStr t)")
    case False
    then have "classifyWithOllama (PString p) reply = Inr None"
      using HttpResponse classifyWithOllama_malformed by simp
    then show ?thesis using HttpResponse False by simp
  next
    case True
    then obtain t where t: "field data ''response'' = Some (JStr t)" by blast
    have r: "classifyWithOllama (PString p) reply = Inr (Some (scoreOfResponse t))"
      using HttpResponse t classifyWithOllama_text by simp
    have nd: "(\<forall>c\<in>set t. \<not> isDigit c) \<longrightarrow> scoreOfResponse t = 5 / 10"
      by (simp add: scoreOfResponse_def Let_def firstDigits_trim firstDigits_no_digit
            parseInt_five)
    have run: "t = pre @ ds @ post \<and> (\<forall>c\<in>set pre. \<not> isDigit c) \<and> ds \<noteq> []
            \<and> (\<forall>c\<in>set ds. isDigit c) \<and> (post = [] \<or> (\<exists>c cs. post = c # cs \<and> \<not> isDigit c))
           \<longrightarrow> scoreOfResponse t = min 1 (real (parseInt ds) / 10)" for pre ds post
    proof
      assume a: "t = pre @ ds @ post \<and> (\<forall>c\<in>set pre. \<not> isDigit c) \<and> ds \<noteq> []
            \<and> (\<forall>c\<in>set ds. isDigit c) \<and> (post = [] \<or> (\<exists>c cs. post = c # cs \<and> \<not> isDigit c))"
      then have "firstDigits t = ds" using firstDigits_run [of pre ds post] by blast
      then show "scoreOfResponse t = min 1 (real (parseInt ds) / 10)"
        using a by (simp add: scoreOfResponse_def Let_def firstDigits_trim max_def min_def)
    qed
    show ?thesis using r HttpResponse t nd run scoreOfResponse_bounds [of t] by auto
  qed
qed

theorem C8_classifyWithOllama_witness:
  "classifyWithOllama (PString ''hi'') (HttpResponse (JObj [(''response'', JStr '' 7 '')]))
     = Inr (Some (7 / 10))"
proof -
  let ?data = "JObj [(''response'', JStr '' 7 '')]"
  note h = C8_classifyWithOllama [of "''hi''" "HttpResponse ?data", THEN conjunct2,
      THEN conjunct2, THEN conjunct2, THEN spec, THEN spec, of ?data "'' 7 ''"]
  have f: "HttpResponse ?data = HttpResponse ?data \<and> field ?data ''response'' = Some (JStr '' 7 '')"
    by (simp add: field_def)
  note g = h [THEN mp, OF f, THEN conjunct2, THEN conjunct2, THEN spec, THEN spec, THEN spec,
      of "'' ''" "''7''" "'' ''"]
  have d: "'' 7 '' = '' '' @ ''7'' @ '' '' \<and> (\<forall>c\<in>set '' ''. \<not> isDigit c) \<and> ''7'' \<noteq> []
            \<and> (\<forall>c\<in>set ''7''. isDigit c) \<and> ('' '' = [] \<or> (\<exists>c cs. '' '' = c # cs \<and> \<not> isDigit c))"
    by (simp add: isDigit_def)
  have "classifyWithOllama (PString ''hi'') (HttpResponse ?data)
          = Inr (Some (min 1 (real (parseInt ''7'') / 10)))"
    using g [THEN mp, OF d] .
  moreover have "parseInt ''7'' = 7"
    by (simp add: parseInt_def digitValue_def)
  ultimately show ?thesis by simp
qed

subsection \<open>Classification step of the proxy\<close>

text \<open>\<^verbatim>\<open>includes\<close> is the substring test.\<close>

lemma includesStr_iff: "includesStr s sub \<longleftrightarrow> (\<exists>p q. s = p @ sub @ q)"
proof (induction s)
  case Nil
  then show ?case by auto
next
  case (Cons c cs)
  show ?case
  proof (cases "take (length sub) (c # cs) = sub")
    case True
    then have "c # cs = [] @ sub @ drop (length sub) (c # cs)"
      by (metis append_Nil append_take_drop_id)
    then show ?thesis using True by (metis includesStr.simps(2))
  next
    case False
    have "(\<exists>p q. c # cs = p @ sub @ q) \<longleftrightarrow> (\<exists>p q. cs = p @ sub @ q)"
    proof
      assume "\<exists>p q. c # cs = p @ sub @ q"
      then obtain p q where pq: "c # cs = p @ sub @ q" by blast
      show "\<exists>p q. cs = p @ sub @ q"
      proof (cases p)
        case Nil
        with pq have "take (length sub) (c # cs) = sub" by simp
        with False show ?thesis by simp
      next
        case (Cons a p')
        with pq have "cs = p' @ sub @ q" by simp
        then show ?thesis by blast
      qed
    next
      assume "\<exists>p q. cs = p @ sub @ q"
      then obtain p q where "cs = p @ sub @ q" by blast
      then have "c # cs = (c # p) @ sub @ q" by simp
      then show "\<exists>p q. c # cs = p @ sub @ q" by blast
    qed
    then show ?thesis using False Cons.IH by simp
  qed
qed

lemma classifyWithOllama_cases:
  "classifyWithOllama (PString p) reply = Inr None
   \<or> (\<exists>s. classifyWithOllama (PString p) reply = Inr (Some s))"
  by (cases "classifyWithOllama (PString p) reply")
     (auto simp add: classifyWithOllama_def)

lemma classifyHeuristics_string:
  "classifyHeuristics (PString p) cfg =
     Inr ((getModelForComplexity (complexityOfText p) cfg)
            \<lparr>prompt := Some (promptPreview (PString p))\<rparr>)"
  by (simp add: classifyHeuristics_def classify_def calculateComplexity_string)

lemma routeRequest_ollama:
  assumes "\<not> disabled CONFIG" and "\<not> truthyStr (forceModel CONFIG)" and "avail"
    and "classifyWithOllama (PString p) reply = Inr (Some s)"
  shows "routeRequest CONFIG avail reply om p st =
           recordRouting om (st\<lparr>total := total st + 1\<rparr>)
             ((getModelForScore s (classifyConfig CONFIG))
                \<lparr>source := Some Ollama, prompt := Some (promptPreview (PString p))\<rparr>)"
  using assms by (simp add: routeRequest_def classifyOllama_def needsFallback_def Let_def)

lemma routeRequest_heuristics:
  assumes "\<not> disabled CONFIG" and "\<not> truthyStr (forceModel CONFIG)"
    and "\<not> avail \<or> classifyWithOllama (PString p) reply = Inr None"
  shows "routeRequest CONFIG avail reply om p st =
           recordRouting om (st\<lparr>total := total st + 1\<rparr>)
             ((getModelForComplexity (complexityOfText p) (classifyConfig CONFIG))
                \<lparr>prompt := Some (promptPreview (PString p)), source := Some Heuristics\<rparr>)"
  using assms
  by (auto simp add: routeRequest_def classifyOllama_def needsFallback_def Let_def
        classifyHeuristics_string)

lemma routeRequest_not_routed:
  assumes "disabled CONFIG \<or> truthyStr (forceModel CONFIG)"
  shows "\<exists>tm c. routeRequest CONFIG avail reply om p st = Inr (st\<lparr>total := total st + 1\<rparr>, tm, c)
           \<and> tier c \<in> {Passthrough, Forced}"
  using assms by (auto simp add: routeRequest_def Let_def)

lemma recordRouting_result:
  assumes "model c = Some t"
  shows "recordRouting om st c =
           Inr (st\<lparr>routed := (routed st)(tier c := routed st (tier c) + 1),
                    saved := saved st +
                      (if (\<exists>m. om = Some m \<and> includesStr m ''opus'') \<and> \<not> includesStr t ''opus''
                       then 1 else 0)\<rparr>,
                Some t, c)"
  using assms by (cases om) (simp_all add: recordRouting_def Let_def)

text \<open>
  C2. When routing is enabled and no override model is set, the classification step
  returns a classification for every prompt, configuration and outcome of the external
  scorer: it does not raise, the result carries a model and one of the tiers simple,
  medium, complex. If the external scorer is available and its call gives a score, the
  result is the one built from that score, with source \<^verbatim>\<open>ollama\<close>. If the scorer is
  unavailable or its call gives \<^verbatim>\<open>null\<close>, the result is the one of the heuristic
  classifier, with its source set to \<^verbatim>\<open>heuristics\<close>.
\<close>

theorem C2_router_always_classifies:
  assumes "\<not> disabled CONFIG" and "\<not> truthyStr (forceModel CONFIG)"
  shows "\<exists>st' c. routeRequest CONFIG avail reply om p st = Inr (st', model c, c)
           \<and> (\<exists>m. model c = Some m) \<and> tier c \<in> {Simple, Medium, Complex}
           \<and> (\<forall>s. avail \<and> classifyWithOllama (PString p) reply = Inr (Some s) \<longrightarrow>
                 source c = Some Ollama \<and>
                 c = (getModelForScore s (classifyConfig CONFIG))
                       \<lparr>source := Some Ollama, prompt := Some (promptPreview (PString p))\<rparr>)
           \<and> (\<not> avail \<or> classifyWithOllama (PString p) reply = Inr None \<longrightarrow>
                 source c = Some Heuristics \<and>
                 (\<exists>h. classifyHeuristics (PString p) (classifyConfig CONFIG) = Inr h
                      \<and> c = h\<lparr>source := Some Heuristics\<rparr>))"
proof (cases "\<not> avail \<or> classifyWithOllama (PString p) reply = Inr None")
  case True
  let ?c = "(getModelForComplexity (complexityOfText p) (classifyConfig CONFIG))
              \<lparr>prompt := Some (promptPreview (PString p)), source := Some Heuristics\<rparr>"
  obtain m where m: "model ?c = Some m"
    using model_getModelForComplexity [of "complexityOfText p" "classifyConfig CONFIG"] by auto
  have t: "tier ?c \<in> {Simple, Medium, Complex}"
    using tier_getModelForComplexity [of "complexityOfText p" "classifyConfig CONFIG"] by simp
  have "routeRequest CONFIG avail reply om p st = recordRouting om (st\<lparr>total := total st + 1\<rparr>) ?c"
    using assms True by (rule routeRequest_heuristics)
  then obtain st' where r: "routeRequest CONFIG avail reply om p st = Inr (st', model ?c, ?c)"
    using recordRouting_result [OF m, of om] m by simp
  have o: "\<forall>s. \<not> (avail \<and> classifyWithOllama (PString p) reply = Inr (Some s))"
    using True by auto
  have h: "\<exists>h. classifyHeuristics (PString p) (classifyConfig CONFIG) = Inr h
                      \<and> ?c = h\<lparr>source := Some Heuristics\<rparr>"
    by (simp add: classifyHeuristics_string)
  show ?thesis
    by (rule exI [of _ st'], rule exI [of _ ?c]) (use r o h m t in simp)
next
  case False
  then have a: "avail" and "classifyWithOllama (PString p) reply \<noteq> Inr None" by simp_all
  then obtain s where s: "classifyWithOllama (PString p) reply = Inr (Some s)"
    using classifyWithOllama_cases [of p reply] by auto
  let ?c = "(getModelForScore s (classifyConfig CONFIG))
              \<lparr>source := Some Ollama, prompt := Some (promptPreview (PString p))\<rparr>"
  obtain m where m: "model ?c = Some m"
    using model_getModelForScore [of s "classifyConfig CONFIG"] by auto
  have t: "tier ?c \<in> {Simple, Medium, Complex}"
    using tier_getModelForScore [of s "classifyConfig CONFIG"] by simp
  have "routeRequest CONFIG avail reply om p st = recordRouting om (st\<lparr>total := total st + 1\<rparr>) ?c"
    using assms a s by (rule routeRequest_ollama)
  then obtain st' where r: "routeRequest CONFIG avail reply om p st = Inr (st', model ?c, ?c)"
    using recordRouting_result [OF m, of om] m by simp
  show ?thesis
    by (rule exI [of _ st'], rule exI [of _ ?c]) (use r m t a s in simp)
qed

theorem C2_router_always_classifies_witness:
  "\<exists>st' c. routeRequest defaultCONFIG True (HttpResponse (JObj [(''response'', JStr ''7'')]))
              (Some ''claude-opus-4-20250514'') ''hi'' initialStats = Inr (st', model c, c)
           \<and> source c = Some Ollama \<and> tier c = Complex"
proof -
  let ?reply = "HttpResponse (JObj [(''response'', JStr ''7'')])"
  have d: "\<not> disabled defaultCONFIG" and f: "\<not> truthyStr (forceModel defaultCONFIG)"
    by (simp_all add: defaultCONFIG_def truthyStr_def)
  have o: "classifyWithOllama (PString ''hi'') ?reply = Inr (Some (7 / 10))"
    by (simp add: classifyWithOllama_def getProp_def scoreOfResponse_def trim_def
          isWhiteSpace_def firstDigits_def isDigit_def parseInt_def digitValue_def)
  have g: "tier (getModelForScore (7 / 10) (classifyConfig defaultCONFIG)) = Complex"
    by (simp add: getModelForScore_def classifyConfig_def defaultCONFIG_def num_or_def)
  from C2_router_always_classifies [OF d f, of True ?reply "Some ''claude-opus-4-20250514''" "''hi''" initialStats]
  obtain st' c where
    r: "routeRequest defaultCONFIG True ?reply (Some ''claude-opus-4-20250514'') ''hi'' initialStats
          = Inr (st', model c, c)" and
    h: "\<forall>s. True \<and> classifyWithOllama (PString ''hi'') ?reply = Inr (Some s) \<longrightarrow>
                 source c = Some Ollama \<and>
                 c = (getModelForScore s (classifyConfig defaultCONFIG))
                       \<lparr>source := Some Ollama, prompt := Some (promptPreview (PString ''hi''))\<rparr>"
    by blast
  from h o have "source c = Some Ollama" and
    "c = (getModelForScore (7 / 10) (classifyConfig defaultCONFIG))
           \<lparr>source := Some Ollama, prompt := Some (promptPreview (PString ''hi''))\<rparr>"
    by blast+
  then have "source c = Some Ollama \<and> tier c = Complex" using g by simp
  with r show ?thesis by blast
qed

lemma empty_score: "complexityOfText [] = 35 / 100"
  by (simp add: complexityOfText_def wordCount_def analyzeCodeContent_def
        COMPLEX_PATTERNS_def SIMPLE_PATTERNS_def MEDIUM_PATTERNS_def countMatches_def
        rx_def test_def questionMarks_def numberedItems_def lengthScoring_def codeScoring_def)

text \<open>
  C3, as stated, fails in both directions. With the model names \<^verbatim>\<open>small-model\<close>,
  \<^verbatim>\<open>mid-model\<close>, \<^verbatim>\<open>big-model\<close> configured, a request whose original model is the
  configured top-tier model \<^verbatim>\<open>big-model\<close> and whose target is \<^verbatim>\<open>mid-model\<close> leaves
  \<^verbatim>\<open>saved\<close> unchanged. With the default configuration, a request whose original model
  \<^verbatim>\<open>claude-3-opus-20240229\<close> is not the configured top-tier model
  \<^verbatim>\<open>claude-opus-4-20250514\<close> increments \<^verbatim>\<open>saved\<close>. (Empty prompt, external scorer
  unavailable: score 0.35, tier medium.)
\<close>

theorem C3_saved_counterexample:
  "complexModel renamedCONFIG = Some ''big-model''
   \<and> resultTarget (routeRequest renamedCONFIG False HttpFailure (Some ''big-model'') [] initialStats)
       = Some ''mid-model''
   \<and> resultSaved (routeRequest renamedCONFIG False HttpFailure (Some ''big-model'') [] initialStats)
       = Some (saved initialStats)
   \<and> complexModel defaultCONFIG = Some ''claude-opus-4-20250514''
   \<and> resultTarget (routeRequest defaultCONFIG False HttpFailure (Some ''claude-3-opus-20240229'') []
        initialStats) = Some ''claude-sonnet-4-20250514''
   \<and> resultSaved (routeRequest defaultCONFIG False HttpFailure (Some ''claude-3-opus-20240229'') []
        initialStats) = Some (saved initialStats + 1)"
proof -
  let ?st1 = "initialStats\<lparr>total := total initialStats + 1\<rparr>"
  let ?cr = "(getModelForComplexity (complexityOfText []) (classifyConfig renamedCONFIG))
               \<lparr>prompt := Some (promptPreview (PString [])), source := Some Heuristics\<rparr>"
  let ?cd = "(getModelForComplexity (complexityOfText []) (classifyConfig defaultCONFIG))
               \<lparr>prompt := Some (promptPreview (PString [])), source := Some Heuristics\<rparr>"
  have 1: "\<not> disabled renamedCONFIG" "\<not> truthyStr (forceModel renamedCONFIG)"
    and 2: "\<not> disabled defaultCONFIG" "\<not> truthyStr (forceModel defaultCONFIG)"
    by (simp_all add: renamedCONFIG_def defaultCONFIG_def truthyStr_def)
  have u: "\<not> False \<or> classifyWithOllama (PString []) HttpFailure = Inr None"
    by simp
  have r: "routeRequest renamedCONFIG False HttpFailure (Some ''big-model'') [] initialStats
             = recordRouting (Some ''big-model'') ?st1 ?cr"
    using 1 u by (rule routeRequest_heuristics)
  have d: "routeRequest defaultCONFIG False HttpFailure (Some ''claude-3-opus-20240229'') []
             initialStats = recordRouting (Some ''claude-3-opus-20240229'') ?st1 ?cd"
    using 2 u by (rule routeRequest_heuristics)
  have mr: "model ?cr = Some ''mid-model''"
    by (simp add: empty_score tier_mapper_defs classifyConfig_def renamedCONFIG_def)
  have md: "model ?cd = Some ''claude-sonnet-4-20250514''"
    by (simp add: empty_score tier_mapper_defs classifyConfig_def defaultCONFIG_def)
  have "resultTarget (routeRequest renamedCONFIG False HttpFailure (Some ''big-model'') []
          initialStats) = Some ''mid-model''"
    unfolding r recordRouting_result [OF mr] by (simp add: resultTarget_def)
  moreover have "resultSaved (routeRequest renamedCONFIG False HttpFailure (Some ''big-model'') []
          initialStats) = Some (saved initialStats)"
    unfolding r recordRouting_result [OF mr] by (simp add: resultSaved_def)
  moreover have "resultTarget (routeRequest defaultCONFIG False HttpFailure
          (Some ''claude-3-opus-20240229'') [] initialStats) = Some ''claude-sonnet-4-20250514''"
    unfolding d recordRouting_result [OF md] by (simp add: resultTarget_def)
  moreover have "resultSaved (routeRequest defaultCONFIG False HttpFailure
          (Some ''claude-3-opus-20240229'') [] initialStats) = Some (saved initialStats + 1)"
    unfolding d recordRouting_result [OF md] by (simp add: resultSaved_def)
  moreover have "complexModel renamedCONFIG = Some ''big-model''"
    and "complexModel defaultCONFIG = Some ''claude-opus-4-20250514''"
    by (simp_all add: renamedCONFIG_def defaultCONFIG_def)
  ultimately show ?thesis by blast
qed

text \<open>
  C3 (amended). For every request, the classification step returns, and it increments
  \<^verbatim>\<open>saved\<close> by exactly 1 if and only if routing is enabled with no override model, the
  request's original model is present and its name contains \<^verbatim>\<open>opus\<close>, and the name of
  the resolved target model does not contain \<^verbatim>\<open>opus\<close>; otherwise \<^verbatim>\<open>saved\<close> is unchanged.
\<close>

theorem C3_saved_counter:
  "\<exists>st' tm c. routeRequest CONFIG avail reply om p st = Inr (st', tm, c) \<and>
     saved st' =
       (if \<not> disabled CONFIG \<and> \<not> truthyStr (forceModel CONFIG)
           \<and> (\<exists>m. om = Some m \<and> includesStr m ''opus'')
           \<and> (\<exists>t. tm = Some t \<and> \<not> includesStr t ''opus'')
        then saved st + 1 else saved st)"
proof (cases "\<not> disabled CONFIG \<and> \<not> truthyStr (forceModel CONFIG)")
  case True
  then have a: "\<not> disabled CONFIG" and b: "\<not> truthyStr (forceModel CONFIG)" by simp_all
  have "\<exists>c t. routeRequest CONFIG avail reply om p st
                 = recordRouting om (st\<lparr>total := total st + 1\<rparr>) c \<and> model c = Some t"
  proof (cases "\<not> avail \<or> classifyWithOllama (PString p) reply = Inr None")
    case True
    show ?thesis
      using routeRequest_heuristics [OF a b True, of om st]
        model_getModelForComplexity [of "complexityOfText p" "classifyConfig CONFIG"]
      by auto
  next
    case False
    then have av: "avail" and "classifyWithOllama (PString p) reply \<noteq> Inr None" by simp_all
    then obtain s where s: "classifyWithOllama (PString p) reply = Inr (Some s)"
      using classifyWithOllama_cases [of p reply] by auto
    show ?thesis
      using routeRequest_ollama [OF a b av s, of om st]
        model_getModelForScore [of s "classifyConfig CONFIG"]
      by auto
  qed
  then obtain c t where
    rr: "routeRequest CONFIG avail reply om p st = recordRouting om (st\<lparr>total := total st + 1\<rparr>) c"
    and m: "model c = Some t" by blast
  show ?thesis
    using True by (simp add: rr recordRouting_result [OF m])
next
  case False
  then have "disabled CONFIG \<or> truthyStr (forceModel CONFIG)" by simp
  from routeRequest_not_routed [OF this, of avail reply om p st] False
  show ?thesis by auto
qed

end
